theory Spec2Isabelle
  imports Complex_Main
begin

section \<open>Errors\<close>

text \<open>
  A JavaScript template literal is modelled by the list of its parts: the literal text
  and the interpolated values. Numbers are interpolated as numbers, so no number
  formatting is modelled.
\<close>

datatype part = Str string | Num real

type_synonym message = "part list"

text \<open>
  The error classes of the runtime: \<open>PolicyError\<close> (policy.ts), \<open>ValidationError\<close> and
  \<open>SandboxError\<close> (sandbox.ts), the plain \<open>Error\<close> thrown by the engine and the gateway,
  and the \<open>TypeError\<close> and \<open>SyntaxError\<close> the JavaScript runtime itself throws.
\<close>

datatype error =
    PolicyError message
  | ValidationError message
  | SandboxError message
  | Error message
  | TypeError message
  | SyntaxError message

fun error_message :: "error \<Rightarrow> message" where
  "error_message (PolicyError m) = m"
| "error_message (ValidationError m) = m"
| "error_message (SandboxError m) = m"
| "error_message (Error m) = m"
| "error_message (TypeError m) = m"
| "error_message (SyntaxError m) = m"

fun is_PolicyError :: "error + 'a \<Rightarrow> bool" where
  "is_PolicyError (Inl (PolicyError m)) = True"
| "is_PolicyError r = False"

section \<open>Policy enforcement (policy.ts)\<close>

text \<open>
  The IR types \<open>PolicyAllow\<close>, \<open>PolicyDeny\<close>, \<open>ResourceLimits\<close> and \<open>Policy\<close> are imported
  by the source from the core package; every field the enforcer reads is optional there
  (it is read through \<open>?.\<close>), so every field is an \<open>option\<close> here.
\<close>

record PolicyAllow =
  allow_tools :: "string list option"
  allow_workflows :: "string list option"
  allow_data :: "string list option"
  allow_capabilities :: "string list option"

record PolicyDeny =
  deny_tools :: "string list option"
  deny_workflows :: "string list option"
  deny_data :: "string list option"

record ResourceLimits =
  max_memory_mb :: "real option"
  max_execution_time :: "real option"
  max_tool_calls :: "real option"
  max_workflow_depth :: "real option"

record Policy =
  policy_id :: string
  allow :: "PolicyAllow option"
  deny :: "PolicyDeny option"
  limits :: "ResourceLimits option"

text \<open>\<open>obj?.field\<close> where both the object and the field are optional.\<close>

definition opt_field :: "'a option \<Rightarrow> ('a \<Rightarrow> 'b option) \<Rightarrow> 'b option" where
  "opt_field obj field = (case obj of None \<Rightarrow> None | Some x \<Rightarrow> field x)"

text \<open>\<open>list?.includes(x)\<close> used as a condition: an absent list is falsy.\<close>

definition opt_includes :: "string list option \<Rightarrow> string \<Rightarrow> bool" where
  "opt_includes l x = (case l of None \<Rightarrow> False | Some xs \<Rightarrow> x \<in> set xs)"

definition checkToolAccess :: "Policy \<Rightarrow> string \<Rightarrow> error + unit" where
  "checkToolAccess policy toolId =
     (if opt_includes (opt_field (deny policy) deny_tools) toolId
      then Inl (PolicyError [Str ''Tool \"'', Str toolId, Str ''\" is explicitly denied by policy''])
      else case opt_field (allow policy) allow_tools of
             Some allowed \<Rightarrow>
               if toolId \<notin> set allowed
               then Inl (PolicyError [Str ''Tool \"'', Str toolId, Str ''\" is not in the allowed tools list''])
               else Inr ()
           | None \<Rightarrow> Inr ())"

definition checkWorkflowAccess :: "Policy \<Rightarrow> string \<Rightarrow> error + unit" where
  "checkWorkflowAccess policy workflowId =
     (if opt_includes (opt_field (deny policy) deny_workflows) workflowId
      then Inl (PolicyError [Str ''Workflow \"'', Str workflowId, Str ''\" is explicitly denied by policy''])
      else case opt_field (allow policy) allow_workflows of
             Some allowed \<Rightarrow>
               if workflowId \<notin> set allowed
               then Inl (PolicyError [Str ''Workflow \"'', Str workflowId, Str ''\" is not in the allowed workflows list''])
               else Inr ()
           | None \<Rightarrow> Inr ())"

definition checkDataAccess :: "Policy \<Rightarrow> string \<Rightarrow> error + unit" where
  "checkDataAccess policy dataId =
     (if opt_includes (opt_field (deny policy) deny_data) dataId
      then Inl (PolicyError [Str ''Data \"'', Str dataId, Str ''\" is explicitly denied by policy''])
      else case opt_field (allow policy) allow_data of
             Some allowed \<Rightarrow>
               if dataId \<notin> set allowed
               then Inl (PolicyError [Str ''Data \"'', Str dataId, Str ''\" is not in the allowed data list''])
               else Inr ()
           | None \<Rightarrow> Inr ())"

definition checkCapabilityAccess :: "Policy \<Rightarrow> string \<Rightarrow> error + unit" where
  "checkCapabilityAccess policy capabilityId =
     (case opt_field (allow policy) allow_capabilities of
        Some allowed \<Rightarrow>
          if capabilityId \<notin> set allowed
          then Inl (PolicyError [Str ''Capability \"'', Str capabilityId,
                                 Str ''\" is not in the allowed capabilities list''])
          else Inr ()
      | None \<Rightarrow> Inr ())"

text \<open>
  \<open>if (limit && v > limit)\<close>: an absent limit and the number 0 are both falsy, so the
  comparison is made only for a limit that is present and not 0.
\<close>

definition checkMemoryLimit :: "Policy \<Rightarrow> real \<Rightarrow> error + unit" where
  "checkMemoryLimit policy usedMemoryMb =
     (case opt_field (limits policy) max_memory_mb of
        None \<Rightarrow> Inr ()
      | Some limit \<Rightarrow>
          if limit \<noteq> 0 \<and> usedMemoryMb > limit
          then Inl (PolicyError [Str ''Memory limit exceeded: '', Num usedMemoryMb, Str ''MB > '', Num limit, Str ''MB''])
          else Inr ())"

definition checkExecutionTimeLimit :: "Policy \<Rightarrow> real \<Rightarrow> error + unit" where
  "checkExecutionTimeLimit policy executionTimeMs =
     (case opt_field (limits policy) max_execution_time of
        None \<Rightarrow> Inr ()
      | Some limit \<Rightarrow>
          if limit \<noteq> 0 \<and> executionTimeMs > limit
          then Inl (PolicyError [Str ''Execution time limit exceeded: '', Num executionTimeMs, Str ''ms > '', Num limit, Str ''ms''])
          else Inr ())"

definition checkToolCallsLimit :: "Policy \<Rightarrow> real \<Rightarrow> error + unit" where
  "checkToolCallsLimit policy toolCallCount =
     (case opt_field (limits policy) max_tool_calls of
        None \<Rightarrow> Inr ()
      | Some limit \<Rightarrow>
          if limit \<noteq> 0 \<and> toolCallCount > limit
          then Inl (PolicyError [Str ''Tool calls limit exceeded: '', Num toolCallCount, Str '' > '', Num limit])
          else Inr ())"

definition checkWorkflowDepthLimit :: "Policy \<Rightarrow> real \<Rightarrow> error + unit" where
  "checkWorkflowDepthLimit policy depth =
     (case opt_field (limits policy) max_workflow_depth of
        None \<Rightarrow> Inr ()
      | Some limit \<Rightarrow>
          if limit \<noteq> 0 \<and> depth > limit
          then Inl (PolicyError [Str ''Workflow depth limit exceeded: '', Num depth, Str '' > '', Num limit])
          else Inr ())"

section \<open>Tool sandbox guards (security/sandbox.ts)\<close>

text \<open>
  \<open>SandboxConfig\<close> and \<open>ToolSecurityConfig\<close> come from the core package as well. Only the
  fields the two pre-flight guards read are kept under their source names; the
  validation rules and the output limit are carried by the type parameters.
\<close>

record SandboxConfig =
  timeout_ms :: "real option"
  network_allowed :: "bool option"
  network_hosts :: "string list option"
  filesystem_allowed :: "bool option"
  filesystem_mode :: "string option"
  filesystem_paths :: "string list option"

record ('v, 'o) ToolSecurityConfig =
  validate :: "'v option"
  sandbox :: "SandboxConfig option"
  output_validation :: "'o option"

definition endsWith :: "string \<Rightarrow> string \<Rightarrow> bool" where
  "endsWith s suffix =
     (length suffix \<le> length s \<and> drop (length s - length suffix) s = suffix)"

definition startsWith :: "string \<Rightarrow> string \<Rightarrow> bool" where
  "startsWith s prefix = (take (length prefix) s = prefix)"

text \<open>A boolean flag that may be absent, used as a condition.\<close>

definition flag :: "bool option \<Rightarrow> bool" where
  "flag b = (case b of None \<Rightarrow> False | Some v \<Rightarrow> v)"

text \<open>\<open>xs.join(', ')\<close>\<close>

fun join :: "string list \<Rightarrow> string" where
  "join [] = []"
| "join [x] = x"
| "join (x # y # ys) = x @ '', '' @ join (y # ys)"

definition checkNetworkAccess ::
  "('v, 'o) ToolSecurityConfig option \<Rightarrow> string \<Rightarrow> error + unit" where
  "checkNetworkAccess securityConfig host =
     (case opt_field securityConfig sandbox of
        None \<Rightarrow> Inr ()
      | Some config \<Rightarrow>
          if \<not> flag (network_allowed config)
          then Inl (SandboxError [Str ''Network access is not allowed by sandbox policy''])
          else case network_hosts config of
                 None \<Rightarrow> Inr ()
               | Some hosts \<Rightarrow>
                   if length hosts > 0
                      \<and> \<not> list_ex (\<lambda>allowedHost. host = allowedHost
                                        \<or> endsWith host (''.'' @ allowedHost)) hosts
                   then Inl (SandboxError [Str ''Network access to \"'', Str host,
                               Str ''\" is not allowed. Allowed hosts: '', Str (join hosts)])
                   else Inr ())"

definition checkFilesystemAccess ::
  "('v, 'o) ToolSecurityConfig option \<Rightarrow> string \<Rightarrow> bool \<Rightarrow> error + unit" where
  "checkFilesystemAccess securityConfig path write =
     (case opt_field securityConfig sandbox of
        None \<Rightarrow> Inr ()
      | Some config \<Rightarrow>
          if \<not> flag (filesystem_allowed config)
          then Inl (SandboxError [Str ''Filesystem access is not allowed by sandbox policy''])
          else if write \<and> filesystem_mode config = Some ''readonly''
          then Inl (SandboxError [Str ''Filesystem is in readonly mode, write access denied''])
          else case filesystem_paths config of
                 None \<Rightarrow> Inr ()
               | Some paths \<Rightarrow>
                   if length paths > 0
                      \<and> \<not> list_ex (\<lambda>allowedPath. startsWith path allowedPath) paths
                   then Inl (SandboxError [Str ''Filesystem access to \"'', Str path,
                               Str ''\" is not allowed. Allowed paths: '', Str (join paths)])
                   else Inr ())"

section \<open>Values and the outside world\<close>

text \<open>
  JavaScript values as the engine handles them. \<open>VObj\<close> is an ordinary object, whose
  prototype is \<open>Object.prototype\<close>, given by its own properties in the order of
  \<open>Object.entries\<close>; \<open>VObjProto p\<close> is an object whose prototype has been set to \<open>p\<close>, an
  object or \<open>null\<close>. \<open>VNative\<close> stands for a function or object of the JavaScript runtime
  itself (\<open>Object\<close>, \<open>Object.prototype\<close>, \<open>Object.prototype.toString\<close>, ...), named by its
  path. Values are given by value: the engine shares no object it later changes, except
  that a reference with an empty path denotes the scope object itself.
\<close>

datatype jsval =
    VUndefined
  | VNull
  | VBool bool
  | VNum real
  | VStr string
  | VList "jsval list"
  | VObj "(string \<times> jsval) list"
  | VObjProto jsval "(string \<times> jsval) list"
  | VNative string

record Usage =
  prompt_tokens :: int
  completion_tokens :: int
  total_tokens :: int

record ProviderResponse =
  content :: string
  model :: string
  usage :: "Usage option"
  finish_reason :: "string option"

text \<open>
  The two adapters of the gateway, with the constructor arguments \<open>createProvider\<close>
  passes: the API key, the endpoint and the timeout.
\<close>

datatype Provider =
    OpenAIProvider string "string option" "real option"
  | AnthropicProvider string "string option" "real option"

record HttpResponse =
  ok :: bool
  status :: real
  json :: "error + jsval"

text \<open>
  Everything the runtime asks of its environment, over a state \<open>'w\<close> of the outside
  world: the wall clock, timers, the provider adapters' HTTP calls, \<open>fetch\<close>, regular
  expression matching (\<open>None\<close> for a pattern that does not compile) and the size in bytes
  of a serialised value. \<open>setTimeout d w\<close> is the world
  in which a caller suspended in \<open>w\<close> on a timer of \<open>d\<close> milliseconds resumes.
  \<open>timer_first d w w'\<close> tells whether a timer of \<open>d\<close> milliseconds set in \<open>w\<close> fires before
  the operation that ends in \<open>w'\<close> settles. \<open>inherited v name\<close> is what reading the property
  \<open>name\<close> gives on a value \<open>v\<close> that has no such property of its own and whose prototype
  is one of the runtime's: the member found on the built-in prototype chain, \<open>undefined\<close>
  when there is none, an error when an accessor found there throws. Every read on a
  \<open>VNative\<close> value is of this kind.
\<close>

record 'w Env =
  Date_now :: "'w \<Rightarrow> real"
  setTimeout :: "real \<Rightarrow> 'w \<Rightarrow> 'w"
  timer_first :: "real \<Rightarrow> 'w \<Rightarrow> 'w \<Rightarrow> bool"
  provider_complete :: "Provider \<Rightarrow> jsval \<Rightarrow> 'w \<Rightarrow> (error + ProviderResponse) \<times> 'w"
  fetch :: "string \<Rightarrow> jsval \<Rightarrow> 'w \<Rightarrow> (error + HttpResponse) \<times> 'w"
  regex_test :: "string \<Rightarrow> string \<Rightarrow> bool option"
  json_size :: "jsval \<Rightarrow> real"
  inherited :: "jsval \<Rightarrow> string \<Rightarrow> error + jsval"

text \<open>
  A fragment of the built-in prototypes, for the concrete environments below. It covers
  these reads: on an object, an array, a string, a number or a boolean, \<open>constructor\<close>,
  \<open>__proto__\<close> and the functions of \<open>Object.prototype\<close> that no other built-in prototype
  redefines; on an object, also \<open>toString\<close>, \<open>toLocaleString\<close> and \<open>valueOf\<close>; on a built-in
  function, \<open>name\<close> and the accessors \<open>caller\<close> and \<open>arguments\<close> it inherits from
  \<open>Function.prototype\<close>, which throw a \<open>TypeError\<close>. Every other read is outside the
  fragment and gives \<open>undefined\<close> here.
\<close>

definition inherited_by_all :: "string list" where
  "inherited_by_all =
     [''hasOwnProperty'', ''isPrototypeOf'', ''propertyIsEnumerable'', ''__defineGetter__'',
      ''__defineSetter__'', ''__lookupGetter__'', ''__lookupSetter__'']"

definition object_prototype_functions :: "string list" where
  "object_prototype_functions = inherited_by_all @ [''toLocaleString'', ''toString'', ''valueOf'']"

definition constructor_functions :: "string list" where
  "constructor_functions = [''Object'', ''Array'', ''String'', ''Number'', ''Boolean'']"

definition native_functions :: "string list" where
  "native_functions =
     constructor_functions @ map (\<lambda>f. ''Object.prototype.'' @ f) object_prototype_functions"

definition restricted_property :: error where
  "restricted_property =
     TypeError [Str ''caller, callee, and arguments properties may not be accessed on strict mode functions or the arguments objects for calls to them'']"

definition member_of :: "string \<Rightarrow> string \<Rightarrow> error + jsval" where
  "member_of kind pname =
     (if pname = ''constructor'' then Inr (VNative kind)
      else if pname = ''__proto__'' then Inr (VNative (kind @ ''.prototype''))
      else if pname \<in> set inherited_by_all
              \<or> (kind = ''Object'' \<and> pname \<in> set object_prototype_functions)
      then Inr (VNative (''Object.prototype.'' @ pname))
      else Inr VUndefined)"

definition function_member :: "string \<Rightarrow> string \<Rightarrow> error + jsval" where
  "function_member f pname =
     (if pname = ''caller'' \<or> pname = ''arguments'' then Inl restricted_property
      else if pname = ''name''
      then Inr (VStr (if f \<in> set constructor_functions then f
                      else drop (length ''Object.prototype.'') f))
      else Inr VUndefined)"

fun builtin_member :: "jsval \<Rightarrow> string \<Rightarrow> error + jsval" where
  "builtin_member (VObj kvs) pname = member_of ''Object'' pname"
| "builtin_member (VList xs) pname = member_of ''Array'' pname"
| "builtin_member (VStr str) pname = member_of ''String'' pname"
| "builtin_member (VNum n) pname = member_of ''Number'' pname"
| "builtin_member (VBool b) pname = member_of ''Boolean'' pname"
| "builtin_member (VNative f) pname =
     (if f \<in> set native_functions then function_member f pname else Inr VUndefined)"
| "builtin_member v pname = Inr VUndefined"

section \<open>Rate limiter (gateway/provider.ts)\<close>

record RateLimits =
  requests_per_minute :: "real option"

record RateLimiter =
  rate_limits :: RateLimits
  maxTokens :: real
  tokens :: real
  lastRefill :: real

text \<open>The constructor; the gateway calls it with the default capacity 60.\<close>

definition new_RateLimiter :: "'w Env \<Rightarrow> RateLimits \<Rightarrow> real \<Rightarrow> 'w \<Rightarrow> RateLimiter" where
  "new_RateLimiter env lims maxT w =
     \<lparr>rate_limits = lims, maxTokens = maxT, tokens = maxT, lastRefill = Date_now env w\<rparr>"

text \<open>
  \<open>if (this.limits.requests_per_minute)\<close>: the rate when it is present and not 0.
\<close>

definition configured_rpm :: "RateLimiter \<Rightarrow> real option" where
  "configured_rpm rl =
     (case requests_per_minute (rate_limits rl) of
        None \<Rightarrow> None
      | Some r \<Rightarrow> if r \<noteq> 0 then Some r else None)"

definition refill :: "'w Env \<Rightarrow> RateLimiter \<Rightarrow> 'w \<Rightarrow> RateLimiter" where
  "refill env rl w =
     (let now = Date_now env w;
          elapsed = now - lastRefill rl
      in case configured_rpm rl of
           Some r \<Rightarrow>
             (let tokensToAdd = (elapsed / 60000) * r
              in rl\<lparr>tokens := min (maxTokens rl) (tokens rl + tokensToAdd), lastRefill := now\<rparr>)
         | None \<Rightarrow> rl)"

definition getWaitTime :: "RateLimiter \<Rightarrow> real" where
  "getWaitTime rl = (case configured_rpm rl of Some r \<Rightarrow> 60000 / r | None \<Rightarrow> 1000)"

text \<open>
  \<open>acquire\<close> returns the limiter, the world in which the caller resumes, and the
  duration of the suspension it asked for, if it suspended.
\<close>

definition acquire :: "'w Env \<Rightarrow> RateLimiter \<Rightarrow> 'w \<Rightarrow> RateLimiter \<times> 'w \<times> real option" where
  "acquire env rl w =
     (let rl1 = refill env rl w in
      if tokens rl1 < 1
      then (let waitTime = getWaitTime rl1;
                w' = setTimeout env waitTime w;
                rl2 = refill env rl1 w'
            in (rl2\<lparr>tokens := tokens rl2 - 1\<rparr>, w', Some waitTime))
      else (rl1\<lparr>tokens := tokens rl1 - 1\<rparr>, w, None))"

text \<open>
  A sequence of \<open>acquire\<close> calls, one after the other, the \<open>i\<close>-th made in the world
  \<open>ws ! i\<close>: anything may happen between two calls.
\<close>

fun acquire_each :: "'w Env \<Rightarrow> RateLimiter \<Rightarrow> 'w list \<Rightarrow> RateLimiter" where
  "acquire_each env rl [] = rl"
| "acquire_each env rl (w # ws) = acquire_each env (fst (acquire env rl w)) ws"

text \<open>
  Calls made back to back: each call is made in the world in which the previous one
  returned. The result lists the suspension of every call.
\<close>

fun acquire_times :: "'w Env \<Rightarrow> nat \<Rightarrow> RateLimiter \<Rightarrow> 'w \<Rightarrow> RateLimiter \<times> 'w \<times> real option list" where
  "acquire_times env 0 rl w = (rl, w, [])"
| "acquire_times env (Suc n) rl w =
     (case acquire env rl w of
        (rl', w', s) \<Rightarrow>
          (case acquire_times env n rl' w' of (rl'', w'', ss) \<Rightarrow> (rl'', w'', s # ss)))"

text \<open>
  Calls that overlap. \<open>acquire\<close> runs without interruption up to its \<open>await\<close>, and again
  from its resumption to its end; between the two, other calls on the same limiter may
  run. \<open>acquire_enter\<close> is the first part (the refill, the test, and the decrement when
  the call does not wait; otherwise the wait it asks for), \<open>acquire_resume\<close> the part
  after the wait (the second refill and the decrement).
\<close>

definition acquire_enter :: "'w Env \<Rightarrow> RateLimiter \<Rightarrow> 'w \<Rightarrow> RateLimiter \<times> real option" where
  "acquire_enter env rl w =
     (let rl1 = refill env rl w in
      if tokens rl1 < 1 then (rl1, Some (getWaitTime rl1))
      else (rl1\<lparr>tokens := tokens rl1 - 1\<rparr>, None))"

definition acquire_resume :: "'w Env \<Rightarrow> RateLimiter \<Rightarrow> 'w \<Rightarrow> RateLimiter" where
  "acquire_resume env rl w' = (let rl2 = refill env rl w' in rl2\<lparr>tokens := tokens rl2 - 1\<rparr>)"

text \<open>
  What happens to a shared limiter, in order: a call enters in some world, or a waiting
  call resumes in some world. The state is the limiter and the number of calls waiting;
  a resumption with no call waiting does not happen.
\<close>

datatype 'w acquire_event = Enter 'w | Resume 'w

fun overlapped ::
  "'w Env \<Rightarrow> RateLimiter \<times> nat \<Rightarrow> 'w acquire_event list \<Rightarrow> RateLimiter \<times> nat" where
  "overlapped env (rl, waiting) [] = (rl, waiting)"
| "overlapped env (rl, waiting) (Enter w # es) =
     (case acquire_enter env rl w of
        (rl', Some d) \<Rightarrow> overlapped env (rl', Suc waiting) es
      | (rl', None) \<Rightarrow> overlapped env (rl', waiting) es)"
| "overlapped env (rl, waiting) (Resume w # es) =
     (if waiting = 0 then overlapped env (rl, waiting) es
      else overlapped env (acquire_resume env rl w, waiting - 1) es)"

text \<open>
  A world that is nothing but a clock in milliseconds, where timers fire exactly on
  time, no provider or handler can be reached, and the built-in prototypes are those of
  \<open>builtin_member\<close>.
\<close>

definition clock_env :: "real Env" where
  "clock_env =
     \<lparr>Date_now = (\<lambda>t. t),
      setTimeout = (\<lambda>d t. t + d),
      timer_first = (\<lambda>d t t'. t + d \<le> t'),
      provider_complete = (\<lambda>p req t. (Inl (Error [Str ''offline'']), t)),
      fetch = (\<lambda>url body t. (Inl (Error [Str ''offline'']), t)),
      regex_test = (\<lambda>pattern s. Some False),
      json_size = (\<lambda>v. 0),
      inherited = builtin_member\<rparr>"

section \<open>Objects, maps and strings of the JavaScript runtime\<close>

text \<open>
  A property name that is an array index: a decimal numeral without a leading zero,
  below \<open>2^32 - 1\<close>.
\<close>

definition is_digit :: "char \<Rightarrow> bool" where
  "is_digit c = (48 \<le> (of_char c :: nat) \<and> (of_char c :: nat) \<le> 57)"

definition array_index :: "string \<Rightarrow> nat option" where
  "array_index s =
     (if s \<noteq> [] \<and> list_all is_digit s \<and> (length s = 1 \<or> hd s \<noteq> CHR ''0'')
      then (let n = foldl (\<lambda>n c. 10 * n + (of_char c - 48)) 0 s
            in if n < 4294967295 then Some n else None)
      else None)"

text \<open>The entry of a key replaced in place, or a new entry added last.\<close>

fun entry_set :: "(string \<times> 'a) list \<Rightarrow> string \<Rightarrow> 'a \<Rightarrow> (string \<times> 'a) list" where
  "entry_set [] k v = [(k, v)]"
| "entry_set ((k', v') # kvs) k v =
     (if k' = k then (k, v) # kvs else (k', v') # entry_set kvs k v)"

text \<open>
  A new property whose name is the array index \<open>i\<close> goes before the first property that
  is not an array index or is a greater one.
\<close>

fun insert_index :: "(string \<times> 'a) list \<Rightarrow> nat \<Rightarrow> string \<Rightarrow> 'a \<Rightarrow> (string \<times> 'a) list" where
  "insert_index [] i k v = [(k, v)]"
| "insert_index ((k', v') # kvs) i k v =
     (case array_index k' of
        Some j \<Rightarrow> if j < i then (k', v') # insert_index kvs i k v else (k, v) # (k', v') # kvs
      | None \<Rightarrow> (k, v) # (k', v') # kvs)"

text \<open>
  An own property defined on an object, whose properties are kept in the order of
  \<open>Object.entries\<close>: array indices first, in ascending order, then the other names in the
  order of their creation. A property that exists keeps its place.
\<close>

definition obj_set :: "(string \<times> 'a) list \<Rightarrow> string \<Rightarrow> 'a \<Rightarrow> (string \<times> 'a) list" where
  "obj_set kvs k v =
     (if k \<in> set (map fst kvs) then entry_set kvs k v
      else (case array_index k of
              Some i \<Rightarrow> insert_index kvs i k v
            | None \<Rightarrow> kvs @ [(k, v)]))"

text \<open>\<open>{...base, ...extra}\<close>: every property of \<open>extra\<close> defined on a copy of \<open>base\<close>.\<close>

definition obj_spread :: "(string \<times> 'a) list \<Rightarrow> (string \<times> 'a) list \<Rightarrow> (string \<times> 'a) list" where
  "obj_spread base extra = foldl (\<lambda>acc (k, v). obj_set acc k v) base extra"

text \<open>An optional object under a spread: \<open>...undefined\<close> adds nothing.\<close>

definition opt_obj :: "(string \<times> 'a) list option \<Rightarrow> (string \<times> 'a) list" where
  "opt_obj ps = (case ps of None \<Rightarrow> [] | Some kvs \<Rightarrow> kvs)"

text \<open>
  A JavaScript \<open>Map\<close> with string keys, as the list of its entries in insertion order:
  \<open>get\<close> and \<open>set\<close>.
\<close>

definition map_get :: "(string \<times> 'a) list \<Rightarrow> string \<Rightarrow> 'a option" where
  "map_get m k = map_of m k"

definition map_set :: "(string \<times> 'a) list \<Rightarrow> string \<Rightarrow> 'a \<Rightarrow> (string \<times> 'a) list" where
  "map_set m k v = entry_set m k v"

text \<open>\<open>s.split(c)\<close> for a one-character separator: never an empty array.\<close>

fun split :: "char \<Rightarrow> string \<Rightarrow> string list" where
  "split c [] = [[]]"
| "split c (x # xs) =
     (if x = c then [] # split c xs
      else (case split c xs of [] \<Rightarrow> [[x]] | p # ps \<Rightarrow> (x # p) # ps))"

text \<open>\<open>s.includes(sub)\<close>\<close>

fun str_includes :: "string \<Rightarrow> string \<Rightarrow> bool" where
  "str_includes [] sub = (sub = [])"
| "str_includes (c # cs) sub = (startsWith (c # cs) sub \<or> str_includes cs sub)"

text \<open>\<open>s.toLowerCase()\<close>, on the ASCII letters.\<close>

definition lower_char :: "char \<Rightarrow> char" where
  "lower_char c =
     (let n = (of_char c :: nat) in if 65 \<le> n \<and> n \<le> 90 then char_of (n + 32) else c)"

definition toLowerCase :: "string \<Rightarrow> string" where
  "toLowerCase s = map lower_char s"

section \<open>Property reads and assignments\<close>

text \<open>
  The own data property of a value under a name: a property of an object, an element
  or the length of an array or of a string.
\<close>

fun own_data :: "jsval \<Rightarrow> string \<Rightarrow> jsval option" where
  "own_data (VObj kvs) name = map_of kvs name"
| "own_data (VObjProto p kvs) name = map_of kvs name"
| "own_data (VList xs) name =
     (if name = ''length'' then Some (VNum (real (length xs)))
      else (case array_index name of
              Some i \<Rightarrow> if i < length xs then Some (xs ! i) else None
            | None \<Rightarrow> None))"
| "own_data (VStr str) name =
     (if name = ''length'' then Some (VNum (real (length str)))
      else (case array_index name of
              Some i \<Rightarrow> if i < length str then Some (VStr [str ! i]) else None
            | None \<Rightarrow> None))"
| "own_data v name = None"

text \<open>
  The first data property of that name along the prototypes that are values of the
  program, and the value where that chain ends: \<open>null\<close>, or a value whose prototype is one
  of the runtime's.
\<close>

fun chain_data :: "jsval \<Rightarrow> string \<Rightarrow> jsval option" where
  "chain_data (VObjProto p kvs) name =
     (case map_of kvs name of Some x \<Rightarrow> Some x | None \<Rightarrow> chain_data p name)"
| "chain_data v name = own_data v name"

fun chain_top :: "jsval \<Rightarrow> jsval" where
  "chain_top (VObjProto p kvs) = chain_top p"
| "chain_top v = v"

text \<open>
  \<open>value?.[part]\<close>: \<open>undefined\<close> on \<open>undefined\<close> and \<open>null\<close>; otherwise the property found on
  the value or along its prototype chain. On an object whose prototype has been set,
  the accessor \<open>__proto__\<close> of \<open>Object.prototype\<close> gives that prototype.
\<close>

definition get_prop :: "'w Env \<Rightarrow> jsval \<Rightarrow> string \<Rightarrow> error + jsval" where
  "get_prop env v part =
     (if v = VUndefined \<or> v = VNull then Inr VUndefined
      else (case chain_data v part of
              Some x \<Rightarrow> Inr x
            | None \<Rightarrow>
                if chain_top v = VNull then Inr VUndefined
                else (case v of
                        VObjProto p kvs \<Rightarrow>
                          if part = ''__proto__'' then Inr p else inherited env (chain_top v) part
                      | _ \<Rightarrow> inherited env v part)))"

text \<open>The loop \<open>for (const part of path) value = value?.[part]\<close>.\<close>

fun get_path :: "'w Env \<Rightarrow> jsval \<Rightarrow> string list \<Rightarrow> error + jsval" where
  "get_path env v [] = Inr v"
| "get_path env v (part # path) =
     (case get_prop env v part of Inl e \<Rightarrow> Inl e | Inr x \<Rightarrow> get_path env x path)"

fun is_object :: "jsval \<Rightarrow> bool" where
  "is_object (VObj kvs) = True"
| "is_object (VObjProto p kvs) = True"
| "is_object (VList xs) = True"
| "is_object (VNative f) = True"
| "is_object v = False"

fun set_prototype :: "jsval \<Rightarrow> jsval \<Rightarrow> jsval" where
  "set_prototype (VObj kvs) p = VObjProto p kvs"
| "set_prototype (VObjProto q kvs) p = VObjProto p kvs"
| "set_prototype v p = v"

fun define_own :: "jsval \<Rightarrow> string \<Rightarrow> jsval \<Rightarrow> jsval" where
  "define_own (VObj kvs) k v = VObj (obj_set kvs k v)"
| "define_own (VObjProto p kvs) k v = VObjProto p (obj_set kvs k v)"
| "define_own obj k v = obj"

text \<open>
  \<open>obj[k] = v\<close> on an object the engine has created. The name \<open>__proto__\<close>, when no data
  property of that name is found on the object or along its chain and the chain reaches
  \<open>Object.prototype\<close>, is the accessor of \<open>Object.prototype\<close>: it sets the prototype to an
  object or to \<open>null\<close> and ignores any other value. Every other assignment defines or
  updates an own property; left out are the read-only properties and the accessors of a
  built-in function that such an assignment has made the prototype of the object, under
  whose names an assignment throws.
\<close>

definition js_assign :: "jsval \<Rightarrow> string \<Rightarrow> jsval \<Rightarrow> jsval" where
  "js_assign obj k v =
     (if k = ''__proto__'' \<and> chain_data obj k = None \<and> chain_top obj \<noteq> VNull
      then (if is_object v \<or> v = VNull then set_prototype obj v else obj)
      else define_own obj k v)"

text \<open>\<open>Object.entries(obj)\<close>\<close>

fun own_entries :: "jsval \<Rightarrow> (string \<times> jsval) list" where
  "own_entries (VObj kvs) = kvs"
| "own_entries (VObjProto p kvs) = kvs"
| "own_entries v = []"

text \<open>The results of evaluations made in order: the first error thrown ends them.\<close>

fun sequence :: "(error + 'a) list \<Rightarrow> error + 'a list" where
  "sequence [] = Inr []"
| "sequence (Inl e # rs) = Inl e"
| "sequence (Inr x # rs) = (case sequence rs of Inl e \<Rightarrow> Inl e | Inr xs \<Rightarrow> Inr (x # xs))"

text \<open>A fresh object \<open>{}\<close> and the assignments \<open>obj[k] = v\<close> made on it in order.\<close>

definition assign_all :: "(string \<times> jsval) list \<Rightarrow> jsval" where
  "assign_all kvs = foldl (\<lambda>obj (k, v). js_assign obj k v) (VObj []) kvs"

section \<open>Model gateway (gateway/gateway.ts)\<close>

text \<open>
  The IR types of the core package, with the fields the gateway reads. A credential is
  either one reference \<open>{type, ref}\<close> or a block of named references; the entries of a
  block are listed in the order of \<open>Object.entries\<close>, and an entry may lack either field
  (the source tests \<open>'type' in credRef && 'ref' in credRef\<close>).
\<close>

record CredentialEntry =
  entry_type :: "string option"
  entry_ref :: "string option"

datatype Credentials =
    CredentialReference string string
  | CredentialBlock "(string \<times> CredentialEntry) list"

record ProviderSettings =
  endpoint :: "string option"
  timeout :: "real option"

record IRProvider =
  cfg_id :: string
  cfg_name :: string
  cfg_type :: string
  cfg_credentials :: "Credentials option"
  cfg_limits :: "RateLimits option"
  cfg_config :: "ProviderSettings option"

record ModelProviderConfig =
  provider :: string
  name :: string
  params :: "(string \<times> jsval) list option"

record AdvancedModelConfig =
  primary :: ModelProviderConfig
  fallback :: "ModelProviderConfig list option"
  strategy :: "string option"

datatype ModelConfig = SimpleModel string | AdvancedModel AdvancedModelConfig

record CredentialResolver =
  getEnv :: "string \<Rightarrow> string option"
  getSecret :: "string \<Rightarrow> string option"

record UsageStats =
  requests :: nat
  used_tokens :: int
  errors :: nat

record ModelGateway =
  registry :: "(string \<times> Provider) list"
  rateLimiters :: "(string \<times> RateLimiter) list"
  usageStats :: "(string \<times> UsageStats) list"

text \<open>The two branches on \<open>ref.type\<close>; any other type leaves the key undefined.\<close>

definition resolve_reference :: "CredentialResolver \<Rightarrow> string \<Rightarrow> string \<Rightarrow> string option" where
  "resolve_reference resolver ty ref =
     (if ty = ''env'' then getEnv resolver ref
      else if ty = ''secrets'' then getSecret resolver ref
      else None)"

text \<open>
  The loop over the entries of a credential block: the first entry with both fields is
  resolved, and the loop is left (\<open>break\<close>) whatever the resolution gave.
\<close>

fun resolve_block :: "CredentialResolver \<Rightarrow> (string \<times> CredentialEntry) list \<Rightarrow> string option" where
  "resolve_block resolver [] = None"
| "resolve_block resolver ((key, credRef) # rest) =
     (case (entry_type credRef, entry_ref credRef) of
        (Some ty, Some ref) \<Rightarrow> resolve_reference resolver ty ref
      | _ \<Rightarrow> resolve_block resolver rest)"

text \<open>
  The value of \<open>apiKey\<close> before the test \<open>if (!apiKey)\<close>. A block that has an entry named
  \<open>type\<close> passes the test \<open>'type' in config.credentials\<close> and is read as one reference,
  whose \<open>type\<close> is then an object and matches neither branch.
\<close>

definition resolve_apiKey :: "CredentialResolver \<Rightarrow> Credentials option \<Rightarrow> string option" where
  "resolve_apiKey resolver creds =
     (case creds of
        None \<Rightarrow> None
      | Some (CredentialReference ty ref) \<Rightarrow> resolve_reference resolver ty ref
      | Some (CredentialBlock entries) \<Rightarrow>
          if ''type'' \<in> set (map fst entries) then None else resolve_block resolver entries)"

definition createProvider :: "CredentialResolver \<Rightarrow> IRProvider \<Rightarrow> error + Provider" where
  "createProvider resolver config =
     (case resolve_apiKey resolver (cfg_credentials config) of
        None \<Rightarrow> Inl (Error [Str ''No credentials found for provider '', Str (cfg_id config)])
      | Some apiKey \<Rightarrow>
          if apiKey = [] then Inl (Error [Str ''No credentials found for provider '', Str (cfg_id config)])
          else
            (let endpoint = opt_field (cfg_config config) endpoint;
                 timeout = opt_field (cfg_config config) timeout
             in if cfg_type config = ''llm''
                then (let providerName = toLowerCase (cfg_name config)
                      in if str_includes providerName ''openai'' \<or> str_includes (cfg_id config) ''openai''
                         then Inr (OpenAIProvider apiKey endpoint timeout)
                         else if str_includes providerName ''anthropic''
                                 \<or> str_includes (cfg_id config) ''anthropic''
                         then Inr (AnthropicProvider apiKey endpoint timeout)
                         else Inl (Error [Str ''Unknown LLM provider: '', Str (cfg_name config)]))
                else Inl (Error [Str ''Unsupported provider type: '', Str (cfg_type config)])))"

text \<open>
  \<open>initializeProviders\<close>: a provider whose creation fails is logged and skipped. The
  rate limiter reads the clock of the world \<open>w\<close> in its constructor.
\<close>

fun initializeProviders ::
  "'w Env \<Rightarrow> CredentialResolver \<Rightarrow> 'w \<Rightarrow> IRProvider list \<Rightarrow> ModelGateway \<Rightarrow> ModelGateway" where
  "initializeProviders env resolver w [] gw = gw"
| "initializeProviders env resolver w (providerConfig # rest) gw =
     (case createProvider resolver providerConfig of
        Inr p \<Rightarrow>
          initializeProviders env resolver w rest
            \<lparr>registry = map_set (registry gw) (cfg_id providerConfig) p,
             rateLimiters =
               (case cfg_limits providerConfig of
                  Some l \<Rightarrow> map_set (rateLimiters gw) (cfg_id providerConfig) (new_RateLimiter env l 60 w)
                | None \<Rightarrow> rateLimiters gw),
             usageStats = map_set (usageStats gw) (cfg_id providerConfig)
                            \<lparr>requests = 0, used_tokens = 0, errors = 0\<rparr>\<rparr>
      | Inl e \<Rightarrow> initializeProviders env resolver w rest gw)"

definition new_ModelGateway ::
  "'w Env \<Rightarrow> CredentialResolver \<Rightarrow> 'w \<Rightarrow> IRProvider list \<Rightarrow> ModelGateway" where
  "new_ModelGateway env resolver w providers =
     initializeProviders env resolver w providers
       \<lparr>registry = [], rateLimiters = [], usageStats = []\<rparr>"

definition extractProviderId :: "string \<Rightarrow> string" where
  "extractProviderId providerRef = last (split CHR ''.'' providerRef)"

definition estimateCost :: "string \<Rightarrow> nat" where
  "estimateCost modelName =
     (let name = toLowerCase modelName
      in if str_includes name ''gpt-4'' then 100
         else if str_includes name ''gpt-3.5'' then 10
         else if str_includes name ''claude-3-opus'' then 100
         else if str_includes name ''claude-3-sonnet'' then 50
         else if str_includes name ''claude-3-haiku'' then 10
         else 50)"

text \<open>
  \<open>completeWithProvider\<close> returns the response or the error thrown, with the gateway and
  the world as the call leaves them. The model name is absent when the caller had none
  to give. A registered provider always has its usage record; reading the counter of a
  missing record is the \<open>TypeError\<close> of the runtime.
\<close>

definition completeWithProvider ::
  "'w Env \<Rightarrow> ModelGateway \<Rightarrow> string \<Rightarrow> string option \<Rightarrow> jsval list \<Rightarrow> (string \<times> jsval) list option
     \<Rightarrow> 'w \<Rightarrow> (error + ProviderResponse) \<times> ModelGateway \<times> 'w" where
  "completeWithProvider env gw providerId modelName messages ps w =
     (case map_get (registry gw) providerId of
        None \<Rightarrow> (Inl (Error [Str ''Provider not found: '', Str providerId]), gw, w)
      | Some p \<Rightarrow>
          (let (gw1, w1) =
                 (case map_get (rateLimiters gw) providerId of
                    Some limiter \<Rightarrow>
                      (case acquire env limiter w of
                         (limiter', w', s) \<Rightarrow>
                           (gw\<lparr>rateLimiters := map_set (rateLimiters gw) providerId limiter'\<rparr>, w'))
                  | None \<Rightarrow> (gw, w))
           in case map_get (usageStats gw1) providerId of
                None \<Rightarrow>
                  (Inl (TypeError [Str ''Cannot read properties of undefined (reading requests)'']),
                   gw1, w1)
              | Some stats \<Rightarrow>
                  (let stats1 = stats\<lparr>requests := requests stats + 1\<rparr>;
                       gw2 = gw1\<lparr>usageStats := map_set (usageStats gw1) providerId stats1\<rparr>;
                       request = VObj (obj_spread
                                   [(''messages'', VList messages),
                                    (''model'', (case modelName of Some n \<Rightarrow> VStr n | None \<Rightarrow> VUndefined))]
                                   (opt_obj ps))
                   in case provider_complete env p request w1 of
                        (Inr response, w2) \<Rightarrow>
                          (Inr response,
                           (case usage response of
                              Some u \<Rightarrow>
                                gw2\<lparr>usageStats := map_set (usageStats gw2) providerId
                                       (stats1\<lparr>used_tokens := used_tokens stats1 + total_tokens u\<rparr>)\<rparr>
                            | None \<Rightarrow> gw2),
                           w2)
                      | (Inl e, w2) \<Rightarrow>
                          (Inl e,
                           gw2\<lparr>usageStats := map_set (usageStats gw2) providerId
                                  (stats1\<lparr>errors := errors stats1 + 1\<rparr>)\<rparr>,
                           w2))))"

text \<open>The call \<open>failoverStrategy\<close> and \<open>roundRobinStrategy\<close> make for one candidate.\<close>

definition completeCandidate ::
  "'w Env \<Rightarrow> ModelGateway \<Rightarrow> ModelProviderConfig \<Rightarrow> jsval list \<Rightarrow> (string \<times> jsval) list option
     \<Rightarrow> 'w \<Rightarrow> (error + ProviderResponse) \<times> ModelGateway \<times> 'w" where
  "completeCandidate env gw providerConfig messages ps w =
     completeWithProvider env gw (extractProviderId (provider providerConfig))
       (Some (name providerConfig)) messages
       (Some (obj_spread (opt_obj ps) (opt_obj (params providerConfig)))) w"

text \<open>
  The loop of \<open>failoverStrategy\<close>, with the variable \<open>lastError\<close>; the error thrown after
  the loop interpolates \<open>lastError?.message\<close>.
\<close>

fun failover_loop ::
  "'w Env \<Rightarrow> error option \<Rightarrow> ModelGateway \<Rightarrow> ModelProviderConfig list \<Rightarrow> jsval list
     \<Rightarrow> (string \<times> jsval) list option \<Rightarrow> 'w \<Rightarrow> (error + ProviderResponse) \<times> ModelGateway \<times> 'w" where
  "failover_loop env lastError gw [] messages ps w =
     (Inl (Error (Str ''All providers failed. Last error: '' #
                  (case lastError of None \<Rightarrow> [Str ''undefined''] | Some e \<Rightarrow> error_message e))),
      gw, w)"
| "failover_loop env lastError gw (providerConfig # rest) messages ps w =
     (case completeCandidate env gw providerConfig messages ps w of
        (Inr response, gw', w') \<Rightarrow> (Inr response, gw', w')
      | (Inl e, gw', w') \<Rightarrow> failover_loop env (Some e) gw' rest messages ps w')"

definition failoverStrategy ::
  "'w Env \<Rightarrow> ModelGateway \<Rightarrow> ModelProviderConfig list \<Rightarrow> jsval list
     \<Rightarrow> (string \<times> jsval) list option \<Rightarrow> 'w \<Rightarrow> (error + ProviderResponse) \<times> ModelGateway \<times> 'w" where
  "failoverStrategy env gw providers messages ps w =
     failover_loop env None gw providers messages ps w"

definition costOptimizedStrategy ::
  "'w Env \<Rightarrow> ModelGateway \<Rightarrow> ModelProviderConfig list \<Rightarrow> jsval list
     \<Rightarrow> (string \<times> jsval) list option \<Rightarrow> 'w \<Rightarrow> (error + ProviderResponse) \<times> ModelGateway \<times> 'w" where
  "costOptimizedStrategy env gw providers messages ps w =
     failoverStrategy env gw (sort_key (\<lambda>p. estimateCost (name p)) providers) messages ps w"

definition latencyOptimizedStrategy ::
  "'w Env \<Rightarrow> ModelGateway \<Rightarrow> ModelProviderConfig list \<Rightarrow> jsval list
     \<Rightarrow> (string \<times> jsval) list option \<Rightarrow> 'w \<Rightarrow> (error + ProviderResponse) \<times> ModelGateway \<times> 'w" where
  "latencyOptimizedStrategy env gw providers messages ps w =
     failoverStrategy env gw providers messages ps w"

text \<open>The sum of the request counters over every entry of \<open>usageStats\<close>.\<close>

definition totalRequests :: "ModelGateway \<Rightarrow> nat" where
  "totalRequests gw = foldl (\<lambda>sum stats. sum + requests stats) 0 (map snd (usageStats gw))"

text \<open>
  With no candidate the index is \<open>NaN\<close> and \<open>providers[index]\<close> is undefined: reading its
  \<open>provider\<close> is a \<open>TypeError\<close>.
\<close>

definition roundRobinStrategy ::
  "'w Env \<Rightarrow> ModelGateway \<Rightarrow> ModelProviderConfig list \<Rightarrow> jsval list
     \<Rightarrow> (string \<times> jsval) list option \<Rightarrow> 'w \<Rightarrow> (error + ProviderResponse) \<times> ModelGateway \<times> 'w" where
  "roundRobinStrategy env gw providers messages ps w =
     (if providers = []
      then (Inl (TypeError [Str ''Cannot read properties of undefined (reading provider)'']), gw, w)
      else (let index = totalRequests gw mod length providers;
                providerConfig = providers ! index
            in completeCandidate env gw providerConfig messages ps w))"

definition completeWithStrategy ::
  "'w Env \<Rightarrow> ModelGateway \<Rightarrow> string \<Rightarrow> ModelProviderConfig list \<Rightarrow> jsval list
     \<Rightarrow> (string \<times> jsval) list option \<Rightarrow> 'w \<Rightarrow> (error + ProviderResponse) \<times> ModelGateway \<times> 'w" where
  "completeWithStrategy env gw strat providers messages ps w =
     (if strat = ''failover'' then failoverStrategy env gw providers messages ps w
      else if strat = ''cost_optimized'' then costOptimizedStrategy env gw providers messages ps w
      else if strat = ''latency_optimized'' then latencyOptimizedStrategy env gw providers messages ps w
      else if strat = ''round_robin'' then roundRobinStrategy env gw providers messages ps w
      else failoverStrategy env gw providers messages ps w)"

text \<open>
  \<open>complete\<close>: a plain string \<open>provider/model\<close> goes straight to that provider (a string
  without \<open>/\<close> gives no model name); otherwise the strategy runs over the primary and the
  fallbacks. \<open>strategy || 'failover'\<close> replaces an absent or empty strategy.
\<close>

definition complete ::
  "'w Env \<Rightarrow> ModelGateway \<Rightarrow> ModelConfig \<Rightarrow> jsval list \<Rightarrow> (string \<times> jsval) list option
     \<Rightarrow> 'w \<Rightarrow> (error + ProviderResponse) \<times> ModelGateway \<times> 'w" where
  "complete env gw modelConfig messages ps w =
     (case modelConfig of
        SimpleModel str \<Rightarrow>
          (case split CHR ''/'' str of
             providerId # modelName # others \<Rightarrow>
               completeWithProvider env gw providerId (Some modelName) messages ps w
           | [providerId] \<Rightarrow> completeWithProvider env gw providerId None messages ps w
           | [] \<Rightarrow> (Inl (Error [Str ''Provider not found: '', Str ''undefined'']), gw, w))
      | AdvancedModel cfg \<Rightarrow>
          (let strat = (case strategy cfg of None \<Rightarrow> ''failover''
                        | Some st \<Rightarrow> if st = [] then ''failover'' else st);
               providers = primary cfg # (case fallback cfg of None \<Rightarrow> [] | Some fs \<Rightarrow> fs)
           in completeWithStrategy env gw strat providers messages ps w))"

section \<open>Tool sandbox execution (security/sandbox.ts)\<close>

record FieldValidation =
  max_length :: "real option"
  min_length :: "real option"
  pattern :: "string option"
  deny_patterns :: "string list option"
  min_value :: "real option"
  max_value :: "real option"

type_synonym ValidationRules = "(string \<times> FieldValidation) list"

record OutputValidation =
  max_size_kb :: "real option"

type_synonym SecurityConfig = "(ValidationRules, OutputValidation) ToolSecurityConfig"

text \<open>A number used as a condition: absent and 0 are falsy.\<close>

definition truthy_num :: "real option \<Rightarrow> real option" where
  "truthy_num n = (case n of None \<Rightarrow> None | Some x \<Rightarrow> if x \<noteq> 0 then Some x else None)"

text \<open>\<open>new RegExp(pattern).test(value)\<close>\<close>

definition test_pattern :: "'w Env \<Rightarrow> string \<Rightarrow> string \<Rightarrow> error + bool" where
  "test_pattern env pat v =
     (case regex_test env pat v of
        None \<Rightarrow> Inl (SyntaxError [Str ''Invalid regular expression: '', Str pat])
      | Some b \<Rightarrow> Inr b)"

fun check_deny_patterns :: "'w Env \<Rightarrow> string \<Rightarrow> string \<Rightarrow> string list \<Rightarrow> error + unit" where
  "check_deny_patterns env fieldName v [] = Inr ()"
| "check_deny_patterns env fieldName v (pat # pats) =
     (case test_pattern env pat v of
        Inl e \<Rightarrow> Inl e
      | Inr True \<Rightarrow>
          Inl (ValidationError [Str ''Field \"'', Str fieldName, Str ''\" matches denied pattern: '',
                                Str pat])
      | Inr False \<Rightarrow> check_deny_patterns env fieldName v pats)"

text \<open>The first check that throws decides; the checks are made in the order listed.\<close>

fun first_error :: "(error + unit) list \<Rightarrow> error + unit" where
  "first_error [] = Inr ()"
| "first_error (Inl e # rest) = Inl e"
| "first_error (Inr u # rest) = first_error rest"

definition validateField :: "'w Env \<Rightarrow> string \<Rightarrow> jsval \<Rightarrow> FieldValidation \<Rightarrow> error + unit" where
  "validateField env fieldName v rules =
     (case v of
        VStr str \<Rightarrow>
          (let len = real (length str) in
           first_error
             [(case truthy_num (max_length rules) of
                 None \<Rightarrow> Inr ()
               | Some m \<Rightarrow>
                   if len > m
                   then Inl (ValidationError [Str ''Field \"'', Str fieldName,
                               Str ''\" exceeds max length: '', Num len, Str '' > '', Num m])
                   else Inr ()),
              (case truthy_num (min_length rules) of
                 None \<Rightarrow> Inr ()
               | Some m \<Rightarrow>
                   if len < m
                   then Inl (ValidationError [Str ''Field \"'', Str fieldName,
                               Str ''\" below min length: '', Num len, Str '' < '', Num m])
                   else Inr ()),
              (case pattern rules of
                 None \<Rightarrow> Inr ()
               | Some pat \<Rightarrow>
                   if pat = [] then Inr ()
                   else (case test_pattern env pat str of
                           Inl e \<Rightarrow> Inl e
                         | Inr True \<Rightarrow> Inr ()
                         | Inr False \<Rightarrow>
                             Inl (ValidationError [Str ''Field \"'', Str fieldName,
                                    Str ''\" does not match pattern: '', Str pat]))),
              (case deny_patterns rules of
                 None \<Rightarrow> Inr ()
               | Some pats \<Rightarrow> check_deny_patterns env fieldName str pats)])
      | VNum n \<Rightarrow>
          first_error
            [(case min_value rules of
                None \<Rightarrow> Inr ()
              | Some m \<Rightarrow>
                  if n < m
                  then Inl (ValidationError [Str ''Field \"'', Str fieldName,
                              Str ''\" below minimum: '', Num n, Str '' < '', Num m])
                  else Inr ()),
             (case max_value rules of
                None \<Rightarrow> Inr ()
              | Some m \<Rightarrow>
                  if n > m
                  then Inl (ValidationError [Str ''Field \"'', Str fieldName,
                              Str ''\" exceeds maximum: '', Num n, Str '' > '', Num m])
                  else Inr ())]
      | _ \<Rightarrow> Inr ())"

text \<open>\<open>InputValidator.validate\<close>: the fields of the input, in order, against their rules.\<close>

fun validate_fields :: "'w Env \<Rightarrow> ValidationRules \<Rightarrow> (string \<times> jsval) list \<Rightarrow> error + unit" where
  "validate_fields env rules [] = Inr ()"
| "validate_fields env rules ((fieldName, v) # rest) =
     (case map_of rules fieldName of
        None \<Rightarrow> validate_fields env rules rest
      | Some fieldRules \<Rightarrow>
          (case validateField env fieldName v fieldRules of
             Inl e \<Rightarrow> Inl e
           | Inr u \<Rightarrow> validate_fields env rules rest))"

text \<open>
  The rules of a field are read as \<open>this.rules[fieldName]\<close>; a member inherited under
  that name carries none of the six rule fields, so it checks nothing, like no rules.
\<close>

definition validate_input :: "'w Env \<Rightarrow> ValidationRules option \<Rightarrow> jsval \<Rightarrow> error + unit" where
  "validate_input env rules input =
     (case rules of None \<Rightarrow> Inr () | Some rs \<Rightarrow> validate_fields env rs (own_entries input))"

text \<open>\<open>OutputValidator.validate\<close>\<close>

definition validate_output :: "'w Env \<Rightarrow> OutputValidation option \<Rightarrow> jsval \<Rightarrow> error + unit" where
  "validate_output env config out =
     (case config of
        None \<Rightarrow> Inr ()
      | Some c \<Rightarrow>
          (case truthy_num (max_size_kb c) of
             None \<Rightarrow> Inr ()
           | Some m \<Rightarrow>
               (let sizeKb = json_size env out / 1024
                in if sizeKb > m
                   then Inl (ValidationError [Str ''Output size exceeds limit: '', Num sizeKb,
                                              Str ''KB > '', Num m, Str ''KB''])
                   else Inr ())))"

text \<open>
  \<open>ToolSandbox.execute\<close>. The tool function runs in the world and leaves it changed,
  also when the timer wins the race: its result is then discarded, the call itself is
  not cancelled.
\<close>

definition sandbox_execute ::
  "'w Env \<Rightarrow> SecurityConfig option \<Rightarrow> (jsval \<Rightarrow> 'w \<Rightarrow> (error + jsval) \<times> 'w)
     \<Rightarrow> jsval \<Rightarrow> 'w \<Rightarrow> (error + jsval) \<times> 'w" where
  "sandbox_execute env securityConfig toolFn input w =
     (case validate_input env (opt_field securityConfig validate) input of
        Inl e \<Rightarrow> (Inl e, w)
      | Inr u \<Rightarrow>
          (case opt_field securityConfig sandbox of
             None \<Rightarrow>
               (case toolFn input w of
                  (Inl e, w') \<Rightarrow> (Inl e, w')
                | (Inr out, w') \<Rightarrow>
                    (case validate_output env (opt_field securityConfig output_validation) out of
                       Inl e \<Rightarrow> (Inl e, w')
                     | Inr u \<Rightarrow> (Inr out, w')))
           | Some config \<Rightarrow>
               (let tmo = (case truthy_num (timeout_ms config) of Some t \<Rightarrow> t | None \<Rightarrow> 30000)
                in case toolFn input w of
                     (r, w') \<Rightarrow>
                       if timer_first env tmo w w'
                       then (Inl (SandboxError [Str ''Tool execution timeout after '', Num tmo,
                                                Str ''ms'']), w')
                       else (case r of
                               Inl e \<Rightarrow> (Inl e, w')
                             | Inr out \<Rightarrow>
                                 (case validate_output env
                                         (opt_field securityConfig output_validation) out of
                                    Inl e \<Rightarrow> (Inl e, w')
                                  | Inr u \<Rightarrow> (Inr out, w'))))))"

section \<open>Expressions and their evaluation (workflow.ts)\<close>

text \<open>
  The expression kinds of the AST (core package) as the engine distinguishes them by
  \<open>expr.kind\<close>: \<open>Literal\<close>, \<open>Reference\<close>, \<open>List\<close>, \<open>Map\<close> and \<open>BlockExpression\<close> (with its
  \<open>type\<close>, its optional \<open>identifier\<close> and the attributes of its body); every other kind
  is \<open>OtherExpression\<close>.
\<close>

datatype expr =
    Literal jsval
  | Reference "string list"
  | ListExpression "expr list"
  | MapExpression "(string \<times> expr) list"
  | BlockExpression string "string option" "(string \<times> expr) list"
  | OtherExpression string

text \<open>
  \<open>evaluateExpression\<close> throws nothing itself; the one operation in it that can throw is
  the property read, when an inherited accessor throws.
\<close>

fun evaluateExpression :: "'w Env \<Rightarrow> expr \<Rightarrow> jsval \<Rightarrow> error + jsval" where
  "evaluateExpression env (Literal v) scope = Inr v"
| "evaluateExpression env (Reference path) scope = get_path env scope path"
| "evaluateExpression env (ListExpression elements) scope =
     (case sequence (map (\<lambda>e. evaluateExpression env e scope) elements) of
        Inl err \<Rightarrow> Inl err
      | Inr vs \<Rightarrow> Inr (VList vs))"
| "evaluateExpression env (MapExpression properties) scope =
     (case sequence (map (\<lambda>(key, e). (case evaluateExpression env e scope of
                                          Inl err \<Rightarrow> Inl err
                                        | Inr v \<Rightarrow> Inr (key, v))) properties) of
        Inl err \<Rightarrow> Inl err
      | Inr kvs \<Rightarrow> Inr (assign_all kvs))"
| "evaluateExpression env (BlockExpression ty ident body) scope = Inr VNull"
| "evaluateExpression env (OtherExpression kind) scope = Inr VNull"

text \<open>
  The loop the three step executors share: \<open>inputs[key] = evaluateExpression(value, scope)\<close>
  for every attribute of the block's body, on a fresh object.
\<close>

definition evaluate_inputs :: "'w Env \<Rightarrow> (string \<times> expr) list \<Rightarrow> jsval \<Rightarrow> error + jsval" where
  "evaluate_inputs env attrs scope =
     (case sequence (map (\<lambda>(key, e). (case evaluateExpression env e scope of
                                          Inl err \<Rightarrow> Inl err
                                        | Inr v \<Rightarrow> Inr (key, v))) attrs) of
        Inl err \<Rightarrow> Inl err
      | Inr kvs \<Rightarrow> Inr (assign_all kvs))"

section \<open>Runtime (runtime.ts) and audit log (security/audit.ts)\<close>

record AuditConfig =
  enabled :: bool
  log_events :: "string list option"

record AuditEvent =
  event :: string
  success :: bool
  agent :: "string option"
  tool :: "string option"
  workflow :: "string option"
  error_text :: "message option"
  metadata :: "jsval option"

text \<open>
  The simple model configuration \<open>{provider, name}\<close> of an agent, or the advanced one
  with a primary and fallbacks.
\<close>

datatype AgentModel = ModelRef string string | AdvancedRef AdvancedModelConfig

datatype PolicyRef = PolicyName string | PolicyObject string

record AgentDef =
  agent_id :: string
  agent_model :: "AgentModel option"
  system_prompt :: "string option"
  agent_policy :: "PolicyRef option"

record ToolDef =
  tool_id :: string
  handler :: "string option"
  security :: "SecurityConfig option"

record A22IR =
  agents :: "AgentDef list"
  tools :: "ToolDef list"

text \<open>
  The runtime: the loaded IR, the gateway, the policy enforcers by id, and the audit
  logger, which is its configuration and the events it has written. The no-op logger of
  a runtime without auditing is the logger that is not enabled.
\<close>

record Runtime =
  ir :: "A22IR option"
  gateway :: "ModelGateway option"
  policies :: "(string \<times> Policy) list"
  auditConfig :: AuditConfig
  auditLog :: "AuditEvent list"

text \<open>\<open>AuditLogger.log\<close>; \<open>event.event || 'unknown'\<close> names an event without a name.\<close>

definition audit :: "Runtime \<Rightarrow> AuditEvent \<Rightarrow> Runtime" where
  "audit rt ev =
     (if \<not> enabled (auditConfig rt) then rt
      else if (case log_events (auditConfig rt) of
                 Some evs \<Rightarrow> event ev \<notin> set evs
               | None \<Rightarrow> False) then rt
      else rt\<lparr>auditLog := auditLog rt
                 @ [ev\<lparr>event := (if event ev = [] then ''unknown'' else event ev)\<rparr>]\<rparr>)"

definition logToolCall :: "Runtime \<Rightarrow> string \<Rightarrow> string \<Rightarrow> bool \<Rightarrow> message option \<Rightarrow> Runtime" where
  "logToolCall rt toolId agentName succeeded err =
     audit rt \<lparr>event = ''tool.call'', success = succeeded, agent = Some agentName, tool = Some toolId,
               workflow = None, error_text = err, metadata = None\<rparr>"

text \<open>A value used as a condition.\<close>

fun truthy :: "jsval \<Rightarrow> bool" where
  "truthy VUndefined = False"
| "truthy VNull = False"
| "truthy (VBool b) = b"
| "truthy (VNum n) = (n \<noteq> 0)"
| "truthy (VStr str) = (str \<noteq> [])"
| "truthy (VList xs) = True"
| "truthy (VObj kvs) = True"
| "truthy (VObjProto p kvs) = True"
| "truthy (VNative f) = True"

text \<open>The decimal numeral of a natural number, for the index keys of a spread.\<close>

fun string_of_nat :: "nat \<Rightarrow> string" where
  "string_of_nat n =
     (if n < 10 then [char_of (48 + n)]
      else string_of_nat (n div 10) @ [char_of (48 + n mod 10)])"

declare string_of_nat.simps [simp del]

text \<open>
  \<open>{...v}\<close> for a value: the own properties of an object, the indexed elements of an
  array or of a string, nothing for any other value.
\<close>

fun spread_entries :: "jsval \<Rightarrow> (string \<times> jsval) list" where
  "spread_entries (VObj kvs) = kvs"
| "spread_entries (VObjProto p kvs) = kvs"
| "spread_entries (VList xs) = map (\<lambda>i. (string_of_nat i, xs ! i)) [0..<length xs]"
| "spread_entries (VStr str) = map (\<lambda>i. (string_of_nat i, VStr [str ! i])) [0..<length str]"
| "spread_entries v = []"

definition usage_value :: "Usage option \<Rightarrow> jsval" where
  "usage_value u =
     (case u of
        None \<Rightarrow> VUndefined
      | Some x \<Rightarrow> VObj [(''prompt_tokens'', VNum (real_of_int (prompt_tokens x))),
                         (''completion_tokens'', VNum (real_of_int (completion_tokens x))),
                         (''total_tokens'', VNum (real_of_int (total_tokens x)))])"

text \<open>
  \<open>Runtime.executeAgent\<close>. The policy of an agent, given by a non-empty name or as an
  object, is looked up and logged, never enforced. An agent without a model makes \<open>'provider' in agent.model\<close> a \<open>TypeError\<close>,
  thrown inside the \<open>try\<close> and so logged as \<open>agent.error\<close>.
\<close>

definition runtime_executeAgent ::
  "'w Env \<Rightarrow> Runtime \<Rightarrow> string \<Rightarrow> jsval list \<Rightarrow> jsval \<Rightarrow> 'w
     \<Rightarrow> (error + ProviderResponse) \<times> Runtime \<times> 'w" where
  "runtime_executeAgent env rt agentId messages ps w =
     (case List.find (\<lambda>a. agent_id a = agentId) (case ir rt of None \<Rightarrow> [] | Some i \<Rightarrow> agents i) of
        None \<Rightarrow> (Inl (Error [Str ''Agent not found: '', Str agentId]), rt, w)
      | Some a \<Rightarrow>
          (case gateway rt of
             None \<Rightarrow>
               (Inl (Error [Str ''Model gateway not initialized. No providers configured.'']), rt, w)
           | Some gw \<Rightarrow>
               (let rt1 =
                      (case agent_policy a of
                         None \<Rightarrow> rt
                       | Some pref \<Rightarrow>
                           (let policyId = (case pref of
                                              PolicyName str \<Rightarrow> last (split CHR ''.'' str)
                                            | PolicyObject pid \<Rightarrow> pid)
                            in if pref = PolicyName [] then rt
                               else case map_get (policies rt) policyId of
                                 None \<Rightarrow> rt
                               | Some pol \<Rightarrow>
                                   audit rt \<lparr>event = ''agent.policy_check'', success = True,
                                             agent = Some agentId, tool = None, workflow = None,
                                             error_text = None,
                                             metadata = Some (VObj [(''policy'', VStr policyId)])\<rparr>));
                    fullMessages =
                      (case system_prompt a of
                         None \<Rightarrow> messages
                       | Some sp \<Rightarrow>
                           if sp = [] then messages
                           else VObj [(''role'', VStr ''system''), (''content'', VStr sp)] # messages);
                    rt2 = audit rt1 \<lparr>event = ''agent.execute'', success = True, agent = Some agentId,
                                     tool = None, workflow = None, error_text = None,
                                     metadata = None\<rparr>
                in case (case agent_model a of
                           None \<Rightarrow>
                             (Inl (TypeError [Str ''Cannot use in operator to search for provider in undefined'']),
                              gw, w)
                         | Some (ModelRef prov nm) \<Rightarrow>
                             complete env gw (SimpleModel (prov @ ''/'' @ nm)) fullMessages
                               (Some (spread_entries ps)) w
                         | Some (AdvancedRef cfg) \<Rightarrow>
                             complete env gw (AdvancedModel cfg) fullMessages
                               (Some (spread_entries ps)) w) of
                     (Inr response, gw', w') \<Rightarrow>
                       (Inr response,
                        audit (rt2\<lparr>gateway := Some gw'\<rparr>)
                          \<lparr>event = ''agent.complete'', success = True, agent = Some agentId,
                           tool = None, workflow = None, error_text = None,
                           metadata = Some (VObj [(''tokens'',
                             (case usage response of
                                None \<Rightarrow> VUndefined
                              | Some u \<Rightarrow> VNum (real_of_int (total_tokens u))))])\<rparr>,
                        w')
                   | (Inl e, gw', w') \<Rightarrow>
                       (Inl e,
                        audit (rt2\<lparr>gateway := Some gw'\<rparr>)
                          \<lparr>event = ''agent.error'', success = False, agent = Some agentId,
                           tool = None, workflow = None, error_text = Some (error_message e),
                           metadata = None\<rparr>,
                        w'))))"

section \<open>Workflow engine (workflow.ts)\<close>

text \<open>
  A block of the AST: its type, its identifier, its child blocks and its attributes in
  declaration order.
\<close>

datatype block =
  Block (block_type: string) (block_identifier: string) (block_children: "block list")
    (block_attributes: "(string \<times> expr) list")

text \<open>
  The match of \<open>/external\("(.+)"\)/\<close>, tried at the start of the given string: after
  the literal opening, \<open>.+\<close> takes the longest run of one or more characters other than
  line terminators that is followed by the literal closing.
\<close>

definition line_terminator :: "char \<Rightarrow> bool" where
  "line_terminator c = (c = CHR 0x0A \<or> c = CHR 0x0D)"

definition match_external_here :: "string \<Rightarrow> string option" where
  "match_external_here s =
     (if startsWith s ''external(\"''
      then (let rest = drop 10 s;
                run = takeWhile (\<lambda>c. \<not> line_terminator c) rest
            in map_option (\<lambda>k. take k rest)
                 (List.find (\<lambda>k. startsWith (drop k rest) ''\")'') (rev [1..<Suc (length run)])))
      else None)"

text \<open>\<open>handler.match(...)\<close>: the leftmost position where the expression matches.\<close>

fun match_external :: "string \<Rightarrow> string option" where
  "match_external [] = None"
| "match_external (c # cs) =
     (case match_external_here (c # cs) of
        Some url \<Rightarrow> Some url
      | None \<Rightarrow> match_external cs)"

text \<open>
  \<open>callToolHandler\<close>: every failure of the call, of the status test and of the decoding
  of the body is caught and thrown again as \<open>Tool handler failed: ...\<close>.
\<close>

definition callToolHandler ::
  "'w Env \<Rightarrow> string \<Rightarrow> jsval \<Rightarrow> 'w \<Rightarrow> (error + jsval) \<times> 'w" where
  "callToolHandler env h input w =
     (case match_external h of
        Some url \<Rightarrow>
          (case fetch env url input w of
             (Inl e, w') \<Rightarrow> (Inl (Error (Str ''Tool handler failed: '' # error_message e)), w')
           | (Inr response, w') \<Rightarrow>
               if \<not> ok response
               then (Inl (Error [Str ''Tool handler failed: '', Str ''Tool handler returned '',
                                 Num (status response)]), w')
               else (case json response of
                       Inl e \<Rightarrow> (Inl (Error (Str ''Tool handler failed: '' # error_message e)), w')
                     | Inr v \<Rightarrow> (Inr v, w')))
      | None \<Rightarrow> (Inl (Error [Str ''Unknown tool handler format: '', Str h]), w))"

text \<open>The function \<open>executeTool\<close> hands to the sandbox.\<close>

definition toolFn :: "'w Env \<Rightarrow> ToolDef \<Rightarrow> jsval \<Rightarrow> 'w \<Rightarrow> (error + jsval) \<times> 'w" where
  "toolFn env toolDef input w =
     (case handler toolDef of
        Some h \<Rightarrow> if h \<noteq> [] then callToolHandler env h input w
                  else (Inr (VObj [(''success'', VBool True), (''data'', input)]), w)
      | None \<Rightarrow> (Inr (VObj [(''success'', VBool True), (''data'', input)]), w))"

text \<open>
  \<open>executeTool\<close>. The tool lookup and the evaluation of the inputs come before the
  \<open>try\<close>: an error there is thrown without an audit entry.
\<close>

definition executeTool ::
  "'w Env \<Rightarrow> Runtime \<Rightarrow> A22IR \<Rightarrow> string option \<Rightarrow> (string \<times> expr) list \<Rightarrow> jsval \<Rightarrow> 'w
     \<Rightarrow> (error + jsval) \<times> Runtime \<times> 'w" where
  "executeTool env rt irv ident body scope w =
     (let toolName = (case ident of None \<Rightarrow> [] | Some i \<Rightarrow> i)
      in case List.find (\<lambda>t. tool_id t = toolName) (tools irv) of
           None \<Rightarrow> (Inl (Error [Str ''Tool not found: '', Str toolName]), rt, w)
         | Some toolDef \<Rightarrow>
             (case evaluate_inputs env body scope of
                Inl e \<Rightarrow> (Inl e, rt, w)
              | Inr inputs \<Rightarrow>
                  (case sandbox_execute env (security toolDef) (toolFn env toolDef) inputs w of
                     (Inr result, w') \<Rightarrow>
                       (Inr result, logToolCall rt toolName ''workflow'' True None, w')
                   | (Inl e, w') \<Rightarrow>
                       (Inl e, logToolCall rt toolName ''workflow'' False (Some (error_message e)),
                        w'))))"

text \<open>
  The message list of an agent step: \<open>inputs.message\<close> as one user message, else the
  elements of \<open>inputs.messages\<close>. Spreading a value that is not iterable into \<open>push\<close> is a
  \<open>TypeError\<close>; arrays and strings are the iterable values here.
\<close>

definition agent_messages :: "'w Env \<Rightarrow> jsval \<Rightarrow> error + jsval list" where
  "agent_messages env inputs =
     (case get_prop env inputs ''message'' of
        Inl e \<Rightarrow> Inl e
      | Inr message \<Rightarrow>
          if truthy message then Inr [VObj [(''role'', VStr ''user''), (''content'', message)]]
          else (case get_prop env inputs ''messages'' of
                  Inl e \<Rightarrow> Inl e
                | Inr messages \<Rightarrow>
                    if truthy messages
                    then (case messages of
                            VList xs \<Rightarrow> Inr xs
                          | VStr str \<Rightarrow> Inr (map (\<lambda>c. VStr [c]) str)
                          | _ \<Rightarrow> Inl (TypeError [Str ''inputs.messages is not iterable'']))
                    else Inr []))"

definition executeAgent ::
  "'w Env \<Rightarrow> Runtime \<Rightarrow> string option \<Rightarrow> (string \<times> expr) list \<Rightarrow> jsval \<Rightarrow> 'w
     \<Rightarrow> (error + jsval) \<times> Runtime \<times> 'w" where
  "executeAgent env rt ident body scope w =
     (let agentId = (case ident of None \<Rightarrow> [] | Some i \<Rightarrow> i)
      in case evaluate_inputs env body scope of
           Inl e \<Rightarrow> (Inl e, rt, w)
         | Inr inputs \<Rightarrow>
             (case agent_messages env inputs of
                Inl e \<Rightarrow> (Inl e, rt, w)
              | Inr messages \<Rightarrow>
                  (case get_prop env inputs ''params'' of
                     Inl e \<Rightarrow> (Inl e, rt, w)
                   | Inr ps \<Rightarrow>
                       (case runtime_executeAgent env rt agentId messages ps w of
                          (Inl e, rt', w') \<Rightarrow> (Inl e, rt', w')
                        | (Inr response, rt', w') \<Rightarrow>
                            (Inr (VObj [(''content'', VStr (content response)),
                                        (''usage'', usage_value (usage response))]), rt', w')))))"

text \<open>
  \<open>executeCapability\<close> evaluates its inputs and acknowledges; it invokes nothing.
\<close>

definition executeCapability ::
  "'w Env \<Rightarrow> Runtime \<Rightarrow> string option \<Rightarrow> (string \<times> expr) list \<Rightarrow> jsval \<Rightarrow> 'w
     \<Rightarrow> (error + jsval) \<times> Runtime \<times> 'w" where
  "executeCapability env rt ident body scope w =
     (let capabilityId = (case ident of None \<Rightarrow> [] | Some i \<Rightarrow> i)
      in case evaluate_inputs env body scope of
           Inl e \<Rightarrow> (Inl e, rt, w)
         | Inr inputs \<Rightarrow>
             (Inr (VObj [(''success'', VBool True), (''capability'', VStr capabilityId)]), rt, w))"

text \<open>
  The loop of \<open>execute\<close> over the attributes of the steps block, with its \<open>try\<close>. A step
  that is a block expression of type \<open>tool\<close>, \<open>agent\<close> or \<open>capability\<close> is executed and
  its result assigned to \<open>scope[stepName]\<close>; the first error an executor throws leaves
  the loop and is thrown again by the \<open>catch\<close>. Any other step is passed over. Without
  an error the scope is returned.
\<close>

fun run_steps ::
  "'w Env \<Rightarrow> Runtime \<Rightarrow> A22IR \<Rightarrow> (string \<times> expr) list \<Rightarrow> jsval \<Rightarrow> 'w
     \<Rightarrow> (error + jsval) \<times> Runtime \<times> 'w" where
  "run_steps env rt irv [] scope w = (Inr scope, rt, w)"
| "run_steps env rt irv ((stepName, e) # rest) scope w =
     (case e of
        BlockExpression ty ident body \<Rightarrow>
          if ty = ''tool''
          then (case executeTool env rt irv ident body scope w of
                  (Inl err, rt', w') \<Rightarrow> (Inl err, rt', w')
                | (Inr v, rt', w') \<Rightarrow> run_steps env rt' irv rest (js_assign scope stepName v) w')
          else if ty = ''agent''
          then (case executeAgent env rt ident body scope w of
                  (Inl err, rt', w') \<Rightarrow> (Inl err, rt', w')
                | (Inr v, rt', w') \<Rightarrow> run_steps env rt' irv rest (js_assign scope stepName v) w')
          else if ty = ''capability''
          then (case executeCapability env rt ident body scope w of
                  (Inl err, rt', w') \<Rightarrow> (Inl err, rt', w')
                | (Inr v, rt', w') \<Rightarrow> run_steps env rt' irv rest (js_assign scope stepName v) w')
          else run_steps env rt irv rest scope w
      | _ \<Rightarrow> run_steps env rt irv rest scope w)"

text \<open>
  \<open>execute\<close>: a workflow without a steps block returns \<open>undefined\<close>; otherwise the scope
  starts as \<open>{input}\<close> and the steps run in declaration order.
\<close>

definition execute ::
  "'w Env \<Rightarrow> Runtime \<Rightarrow> block \<Rightarrow> jsval \<Rightarrow> 'w \<Rightarrow> (error + jsval) \<times> Runtime \<times> 'w" where
  "execute env rt workflowBlock input w =
     (case ir rt of
        None \<Rightarrow> (Inl (Error [Str ''Runtime IR not initialized'']), rt, w)
      | Some irv \<Rightarrow>
          (case List.find (\<lambda>c. block_type c = ''steps'') (block_children workflowBlock) of
             None \<Rightarrow> (Inr VUndefined, rt, w)
           | Some stepsBlock \<Rightarrow>
               run_steps env rt irv (block_attributes stepsBlock) (VObj [(''input'', input)]) w))"

section \<open>A gateway of two providers\<close>

text \<open>
  A concrete gateway for the scenarios below: the OpenAI adapter always fails, the
  Anthropic adapter always answers.
\<close>

definition demo_env :: "real Env" where
  "demo_env =
     clock_env\<lparr>provider_complete :=
       (\<lambda>p request t.
          case p of
            OpenAIProvider apiKey ep tmo \<Rightarrow> (Inl (Error [Str ''OpenAI API error: 500'']), t)
          | AnthropicProvider apiKey ep tmo \<Rightarrow>
              (Inr \<lparr>content = ''hello'', model = ''claude-3-haiku'',
                    usage = Some \<lparr>prompt_tokens = 3, completion_tokens = 4, total_tokens = 7\<rparr>,
                    finish_reason = Some ''end_turn''\<rparr>, t))\<rparr>"

definition demo_resolver :: CredentialResolver where
  "demo_resolver =
     \<lparr>getEnv = (\<lambda>v. if v = ''OPENAI_API_KEY'' then Some ''sk-a''
                     else if v = ''ANTHROPIC_API_KEY'' then Some ''sk-b'' else None),
      getSecret = (\<lambda>v. None)\<rparr>"

definition demo_providers :: "IRProvider list" where
  "demo_providers =
     [\<lparr>cfg_id = ''openai'', cfg_name = ''OpenAI'', cfg_type = ''llm'',
       cfg_credentials = Some (CredentialReference ''env'' ''OPENAI_API_KEY''),
       cfg_limits = None, cfg_config = None\<rparr>,
      \<lparr>cfg_id = ''anthropic'', cfg_name = ''Anthropic'', cfg_type = ''llm'',
       cfg_credentials = Some (CredentialReference ''env'' ''ANTHROPIC_API_KEY''),
       cfg_limits = None, cfg_config = None\<rparr>]"

definition demo_gateway :: ModelGateway where
  "demo_gateway = new_ModelGateway demo_env demo_resolver 0 demo_providers"

definition candidate_A :: ModelProviderConfig where
  "candidate_A = \<lparr>provider = ''provider.openai'', name = ''gpt-4'', params = None\<rparr>"

definition candidate_B :: ModelProviderConfig where
  "candidate_B = \<lparr>provider = ''provider.anthropic'', name = ''claude-3-haiku'', params = None\<rparr>"

definition gateway_after_A :: ModelGateway where
  "gateway_after_A =
     demo_gateway\<lparr>usageStats :=
       [(''openai'', \<lparr>requests = 1, used_tokens = 0, errors = 1\<rparr>),
        (''anthropic'', \<lparr>requests = 0, used_tokens = 0, errors = 0\<rparr>)]\<rparr>"

definition gateway_after_B :: ModelGateway where
  "gateway_after_B =
     demo_gateway\<lparr>usageStats :=
       [(''openai'', \<lparr>requests = 1, used_tokens = 0, errors = 1\<rparr>),
        (''anthropic'', \<lparr>requests = 1, used_tokens = 7, errors = 0\<rparr>)]\<rparr>"

definition demo_response :: ProviderResponse where
  "demo_response =
     \<lparr>content = ''hello'', model = ''claude-3-haiku'',
      usage = Some \<lparr>prompt_tokens = 3, completion_tokens = 4, total_tokens = 7\<rparr>,
      finish_reason = Some ''end_turn''\<rparr>"

definition gateway_3_requests :: ModelGateway where
  "gateway_3_requests =
     demo_gateway\<lparr>usageStats :=
       [(''openai'', \<lparr>requests = 2, used_tokens = 0, errors = 2\<rparr>),
        (''anthropic'', \<lparr>requests = 1, used_tokens = 7, errors = 0\<rparr>)]\<rparr>"

definition gateway_4_requests :: ModelGateway where
  "gateway_4_requests =
     demo_gateway\<lparr>usageStats :=
       [(''openai'', \<lparr>requests = 2, used_tokens = 0, errors = 2\<rparr>),
        (''anthropic'', \<lparr>requests = 2, used_tokens = 14, errors = 0\<rparr>)]\<rparr>"

section \<open>A provider with two credential entries\<close>

fun apiKey_of :: "Provider \<Rightarrow> string" where
  "apiKey_of (OpenAIProvider k ep tmo) = k"
| "apiKey_of (AnthropicProvider k ep tmo) = k"

text \<open>An entry the loop skips: it lacks \<open>type\<close> or \<open>ref\<close>.\<close>

definition incomplete_entry :: "string \<times> CredentialEntry \<Rightarrow> bool" where
  "incomplete_entry kv = (entry_type (snd kv) = None \<or> entry_ref (snd kv) = None)"

definition fallback_resolver :: CredentialResolver where
  "fallback_resolver =
     \<lparr>getEnv = (\<lambda>v. if v = ''BACKUP_KEY'' then Some ''sk-live'' else None),
      getSecret = (\<lambda>v. None)\<rparr>"

definition two_key_provider :: IRProvider where
  "two_key_provider =
     \<lparr>cfg_id = ''openai'', cfg_name = ''OpenAI'', cfg_type = ''llm'',
      cfg_credentials = Some (CredentialBlock
        [(''api_key'', \<lparr>entry_type = Some ''env'', entry_ref = Some ''PRIMARY_KEY''\<rparr>),
         (''backup'', \<lparr>entry_type = Some ''env'', entry_ref = Some ''BACKUP_KEY''\<rparr>)]),
      cfg_limits = None, cfg_config = None\<rparr>"

text \<open>An entry without a \<open>ref\<close>, a map that starts with it, and a map with an entry named \<open>type\<close>.\<close>

definition no_ref_entry :: CredentialEntry where
  "no_ref_entry = \<lparr>entry_type = Some ''env'', entry_ref = None\<rparr>"

definition skipped_then_backup :: "(string \<times> CredentialEntry) list" where
  "skipped_then_backup =
     [(''note'', no_ref_entry),
      (''backup'', \<lparr>entry_type = Some ''env'', entry_ref = Some ''BACKUP_KEY''\<rparr>)]"

definition entry_named_type :: "(string \<times> CredentialEntry) list" where
  "entry_named_type = [(''type'', \<lparr>entry_type = Some ''env'', entry_ref = Some ''BACKUP_KEY''\<rparr>)]"

section \<open>Three workflows\<close>

text \<open>
  A runtime with one tool, \<open>echo\<close>, whose external handler is unreachable in the world
  of \<open>clock_env\<close>, with no agent and no gateway, and three workflows of three steps each:
  \<open>greet\<close> calls the tool in its second step, \<open>summon\<close> an agent that is not defined,
  \<open>recall\<close> a capability one of whose inputs reads \<open>input.constructor.caller\<close>.
\<close>

definition greet_ir :: A22IR where
  "greet_ir =
     \<lparr>agents = [],
      tools = [\<lparr>tool_id = ''echo'', handler = Some ''external(\"http://127.0.0.1:1/echo\")'',
                security = None\<rparr>]\<rparr>"

definition greet_runtime :: Runtime where
  "greet_runtime =
     \<lparr>ir = Some greet_ir,
      gateway = None, policies = [],
      auditConfig = \<lparr>enabled = True, log_events = None\<rparr>,
      auditLog = []\<rparr>"

definition greet_steps :: "(string \<times> expr) list" where
  "greet_steps =
     [(''s0'', BlockExpression ''capability'' (Some ''greeting'') []),
      (''s1'', BlockExpression ''tool'' (Some ''echo'') [(''text'', Reference [''input'', ''text''])]),
      (''s2'', BlockExpression ''capability'' (Some ''farewell'') [])]"

definition greet :: block where
  "greet = Block ''workflow'' ''greet'' [Block ''steps'' [] [] greet_steps] []"

definition greet_failure :: error where
  "greet_failure = Error [Str ''Tool handler failed: '', Str ''offline'']"

definition greet_runtime_failed :: Runtime where
  "greet_runtime_failed =
     greet_runtime\<lparr>auditLog :=
       [\<lparr>event = ''tool.call'', success = False, agent = Some ''workflow'', tool = Some ''echo'',
         workflow = None, error_text = Some [Str ''Tool handler failed: '', Str ''offline''],
         metadata = None\<rparr>]\<rparr>"

definition greet_input :: jsval where
  "greet_input = VObj [(''text'', VStr ''hi'')]"

definition scope_after_s0 :: jsval where
  "scope_after_s0 =
     VObj [(''input'', greet_input),
           (''s0'', VObj [(''success'', VBool True), (''capability'', VStr ''greeting'')])]"

definition summon_steps :: "(string \<times> expr) list" where
  "summon_steps =
     [(''s0'', BlockExpression ''capability'' (Some ''greeting'') []),
      (''s1'', BlockExpression ''agent'' (Some ''ghost'') [(''message'', Reference [''input'', ''text''])]),
      (''s2'', BlockExpression ''capability'' (Some ''farewell'') [])]"

definition summon :: block where
  "summon = Block ''workflow'' ''summon'' [Block ''steps'' [] [] summon_steps] []"

definition summon_failure :: error where
  "summon_failure = Error [Str ''Agent not found: '', Str ''ghost'']"

definition recall_steps :: "(string \<times> expr) list" where
  "recall_steps =
     [(''s0'', BlockExpression ''capability'' (Some ''greeting'') []),
      (''s1'', BlockExpression ''capability'' (Some ''memory'')
                 [(''key'', Reference [''input'', ''constructor'', ''caller''])]),
      (''s2'', BlockExpression ''capability'' (Some ''farewell'') [])]"

definition recall :: block where
  "recall = Block ''workflow'' ''recall'' [Block ''steps'' [] [] recall_steps] []"

section \<open>Properties of the policy enforcer\<close>

text \<open>
  C1. For each of the three resource kinds (tools, workflows, data) the access check
  raises a policy error when the id is on the deny list of that kind, whatever the allow
  list says; it raises a policy error when the id is not denied, an allow list exists for
  the kind and the id is not on it; and it returns without error in every other case, in
  particular when there is no allow list and the id is not denied.
\<close>

theorem access_check_deny_then_allow:
  fixes policy :: Policy and x :: string
  defines "denyT \<equiv> opt_field (deny policy) deny_tools"
      and "denyW \<equiv> opt_field (deny policy) deny_workflows"
      and "denyD \<equiv> opt_field (deny policy) deny_data"
      and "allowT \<equiv> opt_field (allow policy) allow_tools"
      and "allowW \<equiv> opt_field (allow policy) allow_workflows"
      and "allowD \<equiv> opt_field (allow policy) allow_data"
  shows "(opt_includes denyT x \<longrightarrow> is_PolicyError (checkToolAccess policy x))
       \<and> (\<not> opt_includes denyT x \<and> allowT \<noteq> None \<and> \<not> opt_includes allowT x
            \<longrightarrow> is_PolicyError (checkToolAccess policy x))
       \<and> (\<not> opt_includes denyT x \<and> (allowT = None \<or> opt_includes allowT x)
            \<longrightarrow> checkToolAccess policy x = Inr ())
       \<and> (opt_includes denyW x \<longrightarrow> is_PolicyError (checkWorkflowAccess policy x))
       \<and> (\<not> opt_includes denyW x \<and> allowW \<noteq> None \<and> \<not> opt_includes allowW x
            \<longrightarrow> is_PolicyError (checkWorkflowAccess policy x))
       \<and> (\<not> opt_includes denyW x \<and> (allowW = None \<or> opt_includes allowW x)
            \<longrightarrow> checkWorkflowAccess policy x = Inr ())
       \<and> (opt_includes denyD x \<longrightarrow> is_PolicyError (checkDataAccess policy x))
       \<and> (\<not> opt_includes denyD x \<and> allowD \<noteq> None \<and> \<not> opt_includes allowD x
            \<longrightarrow> is_PolicyError (checkDataAccess policy x))
       \<and> (\<not> opt_includes denyD x \<and> (allowD = None \<or> opt_includes allowD x)
            \<longrightarrow> checkDataAccess policy x = Inr ())"
  unfolding denyT_def denyW_def denyD_def allowT_def allowW_def allowD_def
  by (auto simp: checkToolAccess_def checkWorkflowAccess_def checkDataAccess_def
        opt_includes_def split: option.splits)

definition demo_policy :: Policy where
  "demo_policy =
     \<lparr>policy_id = ''p1'',
      allow = Some \<lparr>allow_tools = Some [''rm'', ''ls''], allow_workflows = Some [''rm'', ''ls''],
                    allow_data = Some [''rm'', ''ls''], allow_capabilities = None\<rparr>,
      deny = Some \<lparr>deny_tools = Some [''rm''], deny_workflows = Some [''rm''],
                   deny_data = Some [''rm'']\<rparr>,
      limits = None\<rparr>"

theorem access_check_deny_then_allow_witness:
  "is_PolicyError (checkToolAccess demo_policy ''rm'')
   \<and> is_PolicyError (checkToolAccess demo_policy ''cat'')
   \<and> checkToolAccess demo_policy ''ls'' = Inr ()
   \<and> checkToolAccess (demo_policy\<lparr>allow := None\<rparr>) ''cat'' = Inr ()
   \<and> is_PolicyError (checkWorkflowAccess demo_policy ''rm'')
   \<and> is_PolicyError (checkWorkflowAccess demo_policy ''cat'')
   \<and> checkWorkflowAccess demo_policy ''ls'' = Inr ()
   \<and> checkWorkflowAccess (demo_policy\<lparr>allow := None\<rparr>) ''cat'' = Inr ()
   \<and> is_PolicyError (checkDataAccess demo_policy ''rm'')
   \<and> is_PolicyError (checkDataAccess demo_policy ''cat'')
   \<and> checkDataAccess demo_policy ''ls'' = Inr ()
   \<and> checkDataAccess (demo_policy\<lparr>allow := None\<rparr>) ''cat'' = Inr ()"
  using access_check_deny_then_allow [of demo_policy "''rm''"]
        access_check_deny_then_allow [of demo_policy "''cat''"]
        access_check_deny_then_allow [of demo_policy "''ls''"]
        access_check_deny_then_allow [of "demo_policy\<lparr>allow := None\<rparr>" "''cat''"]
  by (simp add: demo_policy_def opt_field_def opt_includes_def)

text \<open>
  C9. Each of the four limit checks (memory, execution time, tool calls, workflow depth),
  run on a policy whose limit is configured as 0, returns without error for every
  measured value, and so gives the same result as on the policy with that limit absent.
\<close>

theorem zero_limit_never_raises:
  "checkMemoryLimit (policy\<lparr>limits := Some (l\<lparr>max_memory_mb := Some 0\<rparr>)\<rparr>) v = Inr ()
   \<and> checkMemoryLimit (policy\<lparr>limits := Some (l\<lparr>max_memory_mb := None\<rparr>)\<rparr>) v = Inr ()
   \<and> checkExecutionTimeLimit (policy\<lparr>limits := Some (l\<lparr>max_execution_time := Some 0\<rparr>)\<rparr>) v = Inr ()
   \<and> checkExecutionTimeLimit (policy\<lparr>limits := Some (l\<lparr>max_execution_time := None\<rparr>)\<rparr>) v = Inr ()
   \<and> checkToolCallsLimit (policy\<lparr>limits := Some (l\<lparr>max_tool_calls := Some 0\<rparr>)\<rparr>) v = Inr ()
   \<and> checkToolCallsLimit (policy\<lparr>limits := Some (l\<lparr>max_tool_calls := None\<rparr>)\<rparr>) v = Inr ()
   \<and> checkWorkflowDepthLimit (policy\<lparr>limits := Some (l\<lparr>max_workflow_depth := Some 0\<rparr>)\<rparr>) v = Inr ()
   \<and> checkWorkflowDepthLimit (policy\<lparr>limits := Some (l\<lparr>max_workflow_depth := None\<rparr>)\<rparr>) v = Inr ()
   \<and> checkMemoryLimit (policy\<lparr>limits := None\<rparr>) v = Inr ()
   \<and> checkExecutionTimeLimit (policy\<lparr>limits := None\<rparr>) v = Inr ()
   \<and> checkToolCallsLimit (policy\<lparr>limits := None\<rparr>) v = Inr ()
   \<and> checkWorkflowDepthLimit (policy\<lparr>limits := None\<rparr>) v = Inr ()"
  by (simp add: checkMemoryLimit_def checkExecutionTimeLimit_def checkToolCallsLimit_def
        checkWorkflowDepthLimit_def opt_field_def)

section \<open>Properties of the sandbox guards\<close>

text \<open>
  C10. A sandbox built without a sandbox configuration (no security configuration at
  all, or a security configuration whose \<open>sandbox\<close> field is absent) lets every network
  host and every filesystem path through, for reads and for writes.
\<close>

theorem no_sandbox_config_allows_all:
  "checkNetworkAccess None host = Inr ()
   \<and> checkNetworkAccess (Some (sc\<lparr>sandbox := None\<rparr>)) host = Inr ()
   \<and> checkFilesystemAccess None path write = Inr ()
   \<and> checkFilesystemAccess (Some (sc\<lparr>sandbox := None\<rparr>)) path write = Inr ()"
  by (simp add: checkNetworkAccess_def checkFilesystemAccess_def opt_field_def)

section \<open>Properties of the rate limiter\<close>

lemma refill_maxTokens: "maxTokens (refill env rl w) = maxTokens rl"
  by (simp add: refill_def Let_def split: option.splits)

lemma refill_rate_limits: "rate_limits (refill env rl w) = rate_limits rl"
  by (simp add: refill_def Let_def split: option.splits)

lemma refill_configured_rpm: "configured_rpm (refill env rl w) = configured_rpm rl"
  by (simp add: configured_rpm_def refill_rate_limits)

lemma refill_upper: "tokens rl \<le> maxTokens rl \<Longrightarrow> tokens (refill env rl w) \<le> maxTokens rl"
  by (simp add: refill_def Let_def split: option.splits)

lemma acquire_maxTokens: "maxTokens (fst (acquire env rl w)) = maxTokens rl"
  by (simp add: acquire_def Let_def refill_maxTokens)

lemma acquire_rate_limits: "rate_limits (fst (acquire env rl w)) = rate_limits rl"
  by (simp add: acquire_def Let_def refill_rate_limits)

lemma acquire_configured_rpm: "configured_rpm (fst (acquire env rl w)) = configured_rpm rl"
  by (simp add: configured_rpm_def acquire_rate_limits)

lemma acquire_upper:
  assumes "tokens rl \<le> maxTokens rl"
  shows "tokens (fst (acquire env rl w)) \<le> maxTokens rl"
proof -
  have 1: "tokens (refill env rl w) \<le> maxTokens rl"
    using assms by (rule refill_upper)
  have 2: "tokens (refill env (refill env rl w) w') \<le> maxTokens rl" for w'
    using refill_upper [of "refill env rl w" env w'] 1 by (simp add: refill_maxTokens)
  show ?thesis
    using 1 2 [of "setTimeout env (getWaitTime (refill env rl w)) w"]
    by (simp add: acquire_def Let_def)
qed

lemma acquire_each_upper:
  "tokens rl \<le> maxTokens rl \<Longrightarrow>
   tokens (acquire_each env rl ws) \<le> maxTokens rl \<and> maxTokens (acquire_each env rl ws) = maxTokens rl"
proof (induction ws arbitrary: rl)
  case Nil
  then show ?case by simp
next
  case (Cons w ws)
  have "tokens (fst (acquire env rl w)) \<le> maxTokens (fst (acquire env rl w))"
    using acquire_upper [OF Cons.prems] by (simp add: acquire_maxTokens)
  from Cons.IH [OF this] show ?case by (simp add: acquire_maxTokens)
qed

lemma refill_unconfigured: "configured_rpm rl = None \<Longrightarrow> refill env rl w = rl"
  by (simp add: refill_def Let_def)

lemma acquire_unconfigured:
  "configured_rpm rl = None \<Longrightarrow> tokens (fst (acquire env rl w)) = tokens rl - 1"
  by (simp add: acquire_def Let_def refill_unconfigured)

lemma acquire_each_unconfigured:
  "configured_rpm rl = None \<Longrightarrow> tokens (acquire_each env rl ws) = tokens rl - real (length ws)"
proof (induction ws arbitrary: rl)
  case Nil
  then show ?case by simp
next
  case (Cons w ws)
  have "configured_rpm (fst (acquire env rl w)) = None"
    using Cons.prems by (simp add: acquire_configured_rpm)
  from Cons.IH [OF this] show ?case
    using Cons.prems by (simp add: acquire_unconfigured)
qed

lemma new_RateLimiter_simps:
  "tokens (new_RateLimiter env lims m w0) = m"
  "maxTokens (new_RateLimiter env lims m w0) = m"
  "rate_limits (new_RateLimiter env lims m w0) = lims"
  "lastRefill (new_RateLimiter env lims m w0) = Date_now env w0"
  by (simp_all add: new_RateLimiter_def)

lemma acquire_enter_upper:
  assumes "tokens rl \<le> maxTokens rl"
  shows "tokens (fst (acquire_enter env rl w)) \<le> maxTokens (fst (acquire_enter env rl w))"
  using refill_upper [OF assms, of env w]
  by (simp add: acquire_enter_def Let_def refill_maxTokens)

lemma acquire_resume_upper:
  assumes "tokens rl \<le> maxTokens rl"
  shows "tokens (acquire_resume env rl w) \<le> maxTokens (acquire_resume env rl w)"
  using refill_upper [OF assms, of env w]
  by (simp add: acquire_resume_def Let_def refill_maxTokens)

lemma acquire_enter_maxTokens: "maxTokens (fst (acquire_enter env rl w)) = maxTokens rl"
  by (simp add: acquire_enter_def Let_def refill_maxTokens)

lemma acquire_resume_maxTokens: "maxTokens (acquire_resume env rl w) = maxTokens rl"
  by (simp add: acquire_resume_def Let_def refill_maxTokens)

lemma overlapped_upper:
  "tokens rl \<le> maxTokens rl \<Longrightarrow>
   tokens (fst (overlapped env (rl, waiting) es)) \<le> maxTokens rl"
proof (induction es arbitrary: rl waiting)
  case Nil
  then show ?case by simp
next
  case (Cons e es)
  show ?case
  proof (cases e)
    case (Enter w)
    obtain rl' s where step: "acquire_enter env rl w = (rl', s)"
      by (cases "acquire_enter env rl w")
    have "tokens rl' \<le> maxTokens rl'" and "maxTokens rl' = maxTokens rl"
      using acquire_enter_upper [OF Cons.prems, of env w] acquire_enter_maxTokens [of env rl w]
      by (simp_all add: step)
    then show ?thesis
      using Cons.IH [of rl'] by (cases s) (simp_all add: Enter step)
  next
    case (Resume w)
    have "tokens (acquire_resume env rl w) \<le> maxTokens (acquire_resume env rl w)"
      by (rule acquire_resume_upper [OF Cons.prems])
    then show ?thesis
      using Cons.IH [of "acquire_resume env rl w"] Cons.IH [of rl] Cons.prems
      by (simp add: Resume acquire_resume_maxTokens)
  qed
qed

text \<open>A whole call is its first part and, when it waits, its second part after the timer.\<close>

lemma acquire_in_two_parts:
  "acquire env rl w =
     (case acquire_enter env rl w of
        (rl1, Some d) \<Rightarrow> (acquire_resume env rl1 (setTimeout env d w), setTimeout env d w, Some d)
      | (rl', None) \<Rightarrow> (rl', w, None))"
  by (simp add: acquire_def acquire_enter_def acquire_resume_def Let_def)

text \<open>
  C6 (as amended). For a limiter built by the constructor and any sequence of \<open>acquire\<close>
  calls, made one after another or overlapping at their waits, the token count never
  exceeds \<open>maxTokens\<close>. It is not bounded below, because every call takes one token
  whatever the count is. With no \<open>requests_per_minute\<close> configured (absent or 0) nothing
  refills the bucket: after \<open>n\<close> calls made one after another on a limiter of whole
  capacity \<open>k\<close> the count is \<open>k - n\<close> (for \<open>k\<close> and \<open>n\<close> up to \<open>2^53\<close>, where the numbers of
  the code are exact). With a rate configured the count goes negative when
  calls overlap: at 60 requests per minute and capacity 1, two calls that wait on the
  emptied bucket and then both resume leave a negative count.
\<close>

theorem token_count_bounds:
  fixes env :: "'w Env" and lims :: RateLimits and m :: real and w0 :: 'w
    and ws :: "'w list" and es :: "'w acquire_event list" and k :: nat
  defines "rl0 \<equiv> new_RateLimiter env lims m w0"
  shows "tokens (acquire_each env rl0 ws) \<le> m
       \<and> tokens (fst (overlapped env (rl0, 0) es)) \<le> m
       \<and> (configured_rpm rl0 = None \<and> m = real k \<and> k \<le> 2 ^ 53 \<and> length ws \<le> 2 ^ 53
          \<longrightarrow> tokens (acquire_each env rl0 ws) = real_of_int (int k - int (length ws)))
       \<and> tokens (fst (overlapped clock_env
                        (new_RateLimiter clock_env \<lparr>requests_per_minute = Some 60\<rparr> 1 0, 0)
                        [Enter 0, Enter 0, Enter 0, Resume 1000, Resume 1000])) < 0"
proof (intro conjI impI)
  show "tokens (acquire_each env rl0 ws) \<le> m"
    using acquire_each_upper [of rl0 env ws] by (simp add: rl0_def new_RateLimiter_simps)
next
  show "tokens (fst (overlapped env (rl0, 0) es)) \<le> m"
    using overlapped_upper [of rl0 env 0 es] by (simp add: rl0_def new_RateLimiter_simps)
next
  assume "configured_rpm rl0 = None \<and> m = real k \<and> k \<le> 2 ^ 53 \<and> length ws \<le> 2 ^ 53"
  then have none: "configured_rpm rl0 = None" and whole: "m = real k" by blast+
  have "tokens (acquire_each env rl0 ws) = m - real (length ws)"
    using acquire_each_unconfigured [OF none, of env ws]
    by (simp add: rl0_def new_RateLimiter_simps)
  then show "tokens (acquire_each env rl0 ws) = real_of_int (int k - int (length ws))"
    using whole by simp
next
  show "tokens (fst (overlapped clock_env
                        (new_RateLimiter clock_env \<lparr>requests_per_minute = Some 60\<rparr> 1 0, 0)
                        [Enter 0, Enter 0, Enter 0, Resume 1000, Resume 1000])) < 0"
    by (simp add: new_RateLimiter_def clock_env_def configured_rpm_def refill_def
          acquire_enter_def acquire_resume_def getWaitTime_def Let_def)
qed

lemmas rl_eval = new_RateLimiter_def clock_env_def configured_rpm_def refill_def acquire_def
  getWaitTime_def Let_def

text \<open>
  The bounds on a clock: three calls on a bucket of capacity 1 at 60 requests per minute,
  one after another and overlapping, and the countdown of an unconfigured limiter of
  capacity 60.
\<close>

theorem token_count_bounds_witness:
  "tokens (acquire_each clock_env (new_RateLimiter clock_env \<lparr>requests_per_minute = Some 60\<rparr> 1 0)
      [0, 0, 1000]) \<le> 1
   \<and> tokens (fst (overlapped clock_env
                (new_RateLimiter clock_env \<lparr>requests_per_minute = Some 60\<rparr> 1 0, 0)
                [Enter 0, Enter 0, Resume 1000])) \<le> 1
   \<and> tokens (acquire_each clock_env (new_RateLimiter clock_env \<lparr>requests_per_minute = None\<rparr> 60 0)
      [0, 0]) = 58"
  using token_count_bounds [of clock_env "\<lparr>requests_per_minute = Some 60\<rparr>" 1 0 "[0, 0, 1000]"
          "[Enter 0, Enter 0, Resume 1000]" 1]
        token_count_bounds [of clock_env "\<lparr>requests_per_minute = None\<rparr>" 60 0 "[0, 0]" "[]" 60]
  by (simp add: new_RateLimiter_def configured_rpm_def)

text \<open>
  C6 as stated fails: with no \<open>requests_per_minute\<close> configured and the default
  capacity 60, the 61st call leaves the token count at -1.
\<close>

theorem token_count_negative_counterexample:
  "\<not> (0 \<le> tokens (acquire_each clock_env
                (new_RateLimiter clock_env \<lparr>requests_per_minute = None\<rparr> 60 0) (replicate 61 0))
      \<and> tokens (acquire_each clock_env
                (new_RateLimiter clock_env \<lparr>requests_per_minute = None\<rparr> 60 0) (replicate 61 0)) \<le> 60)"
  using acquire_each_unconfigured [of "new_RateLimiter clock_env \<lparr>requests_per_minute = None\<rparr> 60 0"
          clock_env "replicate 61 0"]
  by (simp add: new_RateLimiter_def configured_rpm_def)

lemma acquire_times_add:
  "acquire_times env (n + k) rl w =
     (case acquire_times env n rl w of
        (rl', w', ss) \<Rightarrow>
          (case acquire_times env k rl' w' of (rl'', w'', ss') \<Rightarrow> (rl'', w'', ss @ ss')))"
  by (induction n arbitrary: rl w) (auto split: prod.splits)

lemma refill_immediate:
  assumes "lastRefill rl = Date_now env w" "tokens rl \<le> maxTokens rl"
  shows "refill env rl w = rl"
  using assms by (simp add: refill_def Let_def split: option.splits)

lemma acquire_immediate:
  assumes "lastRefill rl = Date_now env w" "tokens rl \<le> maxTokens rl" "1 \<le> tokens rl"
  shows "acquire env rl w = (rl\<lparr>tokens := tokens rl - 1\<rparr>, w, None)"
  using assms by (simp add: acquire_def Let_def refill_immediate)

lemma acquire_times_immediate:
  assumes "lastRefill rl = Date_now env w" "tokens rl \<le> maxTokens rl" "real n \<le> tokens rl"
  shows "acquire_times env n rl w = (rl\<lparr>tokens := tokens rl - real n\<rparr>, w, replicate n None)"
  using assms
proof (induction n arbitrary: rl)
  case 0
  then show ?case by simp
next
  case (Suc n)
  let ?rl' = "rl\<lparr>tokens := tokens rl - 1\<rparr>"
  have a: "acquire env rl w = (?rl', w, None)"
    using Suc.prems by (intro acquire_immediate) simp_all
  have "acquire_times env n ?rl' w = (?rl'\<lparr>tokens := tokens ?rl' - real n\<rparr>, w, replicate n None)"
    using Suc.prems by (intro Suc.IH) simp_all
  then show ?case using a by simp
qed

lemma acquire_exhausted:
  assumes "configured_rpm rl = Some r" "lastRefill rl = Date_now env w" "tokens rl < 1"
    "tokens rl \<le> maxTokens rl"
  shows "snd (acquire env rl w) = (setTimeout env (60000 / r) w, Some (60000 / r))"
  using assms by (simp add: acquire_def Let_def refill_immediate getWaitTime_def)

text \<open>
  C7. \<open>acquire\<close> first refills: with a rate configured, the elapsed time since the last
  refill, scaled by \<open>requests_per_minute / 60000\<close>, is added to the tokens (up to the
  capacity) and the refill time is set to now; with no rate configured the limiter is
  left as it is. If fewer than 1 token is then available, the caller is suspended on a
  timer of \<open>60000 / requests_per_minute\<close> ms (1000 ms with no rate configured), the
  limiter is refilled again, and one token is taken; otherwise one token is taken at
  once. At 60 requests per minute with capacity 60, none of the first 60 back-to-back
  calls is suspended, and the 61st is suspended on a timer of 1000 ms.
\<close>

theorem acquire_refill_wait_decrement:
  fixes env :: "'w Env" and rl :: RateLimiter and w :: 'w and r :: real
  defines "rl1 \<equiv> refill env rl w"
      and "d \<equiv> (case configured_rpm rl of Some r \<Rightarrow> 60000 / r | None \<Rightarrow> 1000)"
      and "rl60 \<equiv> new_RateLimiter env \<lparr>requests_per_minute = Some 60\<rparr> 60 w"
  shows "(configured_rpm rl = Some r \<longrightarrow>
            tokens rl1 = min (maxTokens rl) (tokens rl + (Date_now env w - lastRefill rl) / 60000 * r)
            \<and> lastRefill rl1 = Date_now env w)
       \<and> (configured_rpm rl = None \<longrightarrow> rl1 = rl)
       \<and> (tokens rl1 < 1 \<longrightarrow>
            acquire env rl w =
              (let w' = setTimeout env d w; rl2 = refill env rl1 w'
               in (rl2\<lparr>tokens := tokens rl2 - 1\<rparr>, w', Some d)))
       \<and> (\<not> tokens rl1 < 1 \<longrightarrow> acquire env rl w = (rl1\<lparr>tokens := tokens rl1 - 1\<rparr>, w, None))
       \<and> snd (acquire_times env 60 rl60 w) = (w, replicate 60 None)
       \<and> snd (acquire_times env 61 rl60 w) = (setTimeout env 1000 w, replicate 60 None @ [Some 1000])"
proof (intro conjI impI)
  assume "configured_rpm rl = Some r"
  then show "tokens rl1 = min (maxTokens rl) (tokens rl + (Date_now env w - lastRefill rl) / 60000 * r)"
    and "lastRefill rl1 = Date_now env w"
    by (simp_all add: rl1_def refill_def Let_def)
next
  assume "configured_rpm rl = None"
  then show "rl1 = rl" by (simp add: rl1_def refill_unconfigured)
next
  assume "tokens rl1 < 1"
  then show "acquire env rl w =
              (let w' = setTimeout env d w; rl2 = refill env rl1 w'
               in (rl2\<lparr>tokens := tokens rl2 - 1\<rparr>, w', Some d))"
    by (simp add: rl1_def d_def acquire_def Let_def getWaitTime_def refill_configured_rpm)
next
  assume "\<not> tokens rl1 < 1"
  then show "acquire env rl w = (rl1\<lparr>tokens := tokens rl1 - 1\<rparr>, w, None)"
    by (simp add: rl1_def acquire_def Let_def)
next
  have "acquire_times env 60 rl60 w = (rl60\<lparr>tokens := tokens rl60 - real 60\<rparr>, w, replicate 60 None)"
    by (rule acquire_times_immediate) (simp_all add: rl60_def new_RateLimiter_def)
  then have first60: "acquire_times env 60 rl60 w = (rl60\<lparr>tokens := 0\<rparr>, w, replicate 60 None)"
    by (simp add: rl60_def new_RateLimiter_def)
  then show "snd (acquire_times env 60 rl60 w) = (w, replicate 60 None)" by simp
  let ?rl' = "rl60\<lparr>tokens := 0\<rparr>"
  have "snd (acquire env ?rl' w) = (setTimeout env (60000 / 60) w, Some (60000 / 60))"
    by (rule acquire_exhausted) (simp_all add: rl60_def new_RateLimiter_def configured_rpm_def)
  then obtain rl' where last: "acquire env ?rl' w = (rl', setTimeout env 1000 w, Some 1000)"
    by (cases "acquire env ?rl' w") simp
  have "acquire_times env (60 + 1) rl60 w =
          (rl', setTimeout env 1000 w, replicate 60 None @ [Some 1000])"
    unfolding acquire_times_add first60 by (simp add: last)
  then show "snd (acquire_times env 61 rl60 w) = (setTimeout env 1000 w, replicate 60 None @ [Some 1000])"
    by simp
qed

text \<open>
  The three cases on a clock: at 30 requests per minute an empty bucket waits 2000 ms,
  an unconfigured empty bucket waits 1000 ms and goes to -1, a full bucket does not wait.
\<close>

theorem acquire_refill_wait_decrement_witness:
  "tokens (refill clock_env (new_RateLimiter clock_env \<lparr>requests_per_minute = Some 30\<rparr> 60 0
             \<lparr>tokens := 0\<rparr>) 1000) = 1 / 2
   \<and> acquire clock_env (new_RateLimiter clock_env \<lparr>requests_per_minute = Some 30\<rparr> 60 0
             \<lparr>tokens := 0\<rparr>) 1000
       = (\<lparr>rate_limits = \<lparr>requests_per_minute = Some 30\<rparr>, maxTokens = 60, tokens = 1 / 2,
            lastRefill = 3000\<rparr>, 3000, Some 2000)
   \<and> acquire clock_env (new_RateLimiter clock_env \<lparr>requests_per_minute = None\<rparr> 60 0
             \<lparr>tokens := 0\<rparr>) 1000
       = (\<lparr>rate_limits = \<lparr>requests_per_minute = None\<rparr>, maxTokens = 60, tokens = - 1,
            lastRefill = 0\<rparr>, 2000, Some 1000)
   \<and> acquire clock_env (new_RateLimiter clock_env \<lparr>requests_per_minute = Some 30\<rparr> 60 0) 1000
       = (\<lparr>rate_limits = \<lparr>requests_per_minute = Some 30\<rparr>, maxTokens = 60, tokens = 59,
            lastRefill = 1000\<rparr>, 1000, None)"
  using acquire_refill_wait_decrement
          [of "new_RateLimiter clock_env \<lparr>requests_per_minute = Some 30\<rparr> 60 0\<lparr>tokens := 0\<rparr>"
              30 clock_env 1000]
        acquire_refill_wait_decrement
          [of "new_RateLimiter clock_env \<lparr>requests_per_minute = None\<rparr> 60 0\<lparr>tokens := 0\<rparr>"
              30 clock_env 1000]
        acquire_refill_wait_decrement
          [of "new_RateLimiter clock_env \<lparr>requests_per_minute = Some 30\<rparr> 60 0"
              30 clock_env 1000]
  by (simp add: rl_eval)

section \<open>Properties of the model gateway\<close>

lemma map_get_map_set:
  "map_get (map_set m k v) k' = (if k' = k then Some v else map_get m k')"
  unfolding map_get_def map_set_def
  by (induction m k v rule: entry_set.induct) auto

lemma foldl_requests_acc:
  "foldl (\<lambda>sum stats. sum + requests stats) a xs = a + sum_list (map requests xs)"
  by (induction xs arbitrary: a) auto

lemma totalRequests_sum:
  "totalRequests gw = sum_list (map (requests \<circ> snd) (usageStats gw))"
  by (simp add: totalRequests_def foldl_requests_acc)

lemma map_set_twice: "map_set (map_set m k a) k b = map_set m k b"
  unfolding map_set_def
  by (induction m k a rule: entry_set.induct) auto

lemma sum_requests_map_set:
  "map_get m k = Some s \<Longrightarrow> requests s' = Suc (requests s) \<Longrightarrow>
   sum_list (map (requests \<circ> snd) (map_set m k s')) = Suc (sum_list (map (requests \<circ> snd) m))"
  unfolding map_get_def map_set_def
  by (induction m k s' rule: entry_set.induct) (auto split: if_splits)

lemma completeWithProvider_registered:
  assumes reg: "map_get (registry gw) pid = Some p"
      and st: "map_get (usageStats gw) pid = Some s"
      and res: "completeWithProvider env gw pid modelName messages ps w = (out, gw', w')"
  shows "registry gw' = registry gw"
    and "map_get (usageStats gw') pid =
           Some (case out of
                   Inl e \<Rightarrow> s\<lparr>requests := requests s + 1, errors := errors s + 1\<rparr>
                 | Inr r \<Rightarrow> (case usage r of
                              Some u \<Rightarrow> s\<lparr>requests := requests s + 1,
                                          used_tokens := used_tokens s + total_tokens u\<rparr>
                            | None \<Rightarrow> s\<lparr>requests := requests s + 1\<rparr>))"
    and "k \<noteq> pid \<Longrightarrow> map_get (usageStats gw') k = map_get (usageStats gw) k"
    and "totalRequests gw' = totalRequests gw + 1"
  using reg st res
  by (auto simp: completeWithProvider_def Let_def map_get_map_set map_set_twice totalRequests_sum
        sum_requests_map_set
        split: option.splits prod.splits sum.splits)

lemma completeWithProvider_success_registered:
  assumes "completeWithProvider env gw pid modelName messages ps w = (Inr r, gw', w')"
  shows "\<exists>p s. map_get (registry gw) pid = Some p \<and> map_get (usageStats gw) pid = Some s"
  using assms
  by (auto simp: completeWithProvider_def Let_def map_get_map_set
        split: option.splits prod.splits sum.splits)

lemma failover_loop_nonempty:
  "providers \<noteq> [] \<Longrightarrow>
   failover_loop env lastError gw providers messages ps w
     = failover_loop env None gw providers messages ps w"
  by (cases providers) (auto split: prod.splits sum.splits)

lemma failoverStrategy_Cons:
  "failoverStrategy env gw (pc # rest) messages ps w =
     (case completeCandidate env gw pc messages ps w of
        (Inr response, gw', w') \<Rightarrow> (Inr response, gw', w')
      | (Inl e, gw', w') \<Rightarrow>
          if rest = []
          then (Inl (Error (Str ''All providers failed. Last error: '' # error_message e)), gw', w')
          else failoverStrategy env gw' rest messages ps w')"
proof (cases rest)
  case Nil
  then show ?thesis
    by (simp add: failoverStrategy_def split: prod.splits sum.splits)
next
  case (Cons a list)
  then have "rest \<noteq> []" by simp
  then show ?thesis
    using failover_loop_nonempty [of rest env]
    by (simp add: failoverStrategy_def split: prod.splits sum.splits)
qed

text \<open>
  C4. Over a non-empty candidate list, \<open>failoverStrategy\<close> calls the first candidate; a
  success is returned at once, with the gateway and the world as that call left them; a
  failure is caught, and the strategy goes on with the remaining candidates from the
  state the failed call left; when the failing candidate was the last one, the error
  raised is the aggregate \<open>All providers failed. Last error: \<close> followed by the message
  of that last failure. For two candidates of distinct registered providers, A failing
  and B succeeding, B's response is returned, A's error counter has gone up by one and
  B's request counter has gone up by one.
\<close>

theorem failover_in_order:
  fixes env :: "'w Env" and A :: ModelProviderConfig and B :: ModelProviderConfig
  defines "idA \<equiv> extractProviderId (provider A)" and "idB \<equiv> extractProviderId (provider B)"
  shows "failoverStrategy env gw (pc # rest) messages ps w =
           (case completeCandidate env gw pc messages ps w of
              (Inr response, gw', w') \<Rightarrow> (Inr response, gw', w')
            | (Inl e, gw', w') \<Rightarrow>
                if rest = []
                then (Inl (Error (Str ''All providers failed. Last error: '' # error_message e)),
                      gw', w')
                else failoverStrategy env gw' rest messages ps w')
       \<and> (idA \<noteq> idB \<and> map_get (registry gw) idA = Some pA \<and> map_get (usageStats gw) idA = Some sA
            \<and> map_get (usageStats gw) idB = Some sB
            \<and> completeCandidate env gw A messages ps w = (Inl e, gw1, w1)
            \<and> completeCandidate env gw1 B messages ps w1 = (Inr r, gw2, w2)
          \<longrightarrow> failoverStrategy env gw [A, B] messages ps w = (Inr r, gw2, w2)
             \<and> map_option errors (map_get (usageStats gw2) idA) = Some (errors sA + 1)
             \<and> map_option requests (map_get (usageStats gw2) idB) = Some (requests sB + 1))"
proof (intro conjI impI, goal_cases)
  case 1
  show ?case by (rule failoverStrategy_Cons)
next
  case 2
  then show ?case by (simp add: failoverStrategy_Cons)
next
  case 3
  then have ne: "idA \<noteq> idB" and regA: "map_get (registry gw) idA = Some pA"
    and stA: "map_get (usageStats gw) idA = Some sA"
    and stB: "map_get (usageStats gw) idB = Some sB"
    and failA: "completeWithProvider env gw idA (Some (name A)) messages
                  (Some (obj_spread (opt_obj ps) (opt_obj (params A)))) w = (Inl e, gw1, w1)"
    and okB: "completeWithProvider env gw1 idB (Some (name B)) messages
                  (Some (obj_spread (opt_obj ps) (opt_obj (params B)))) w1 = (Inr r, gw2, w2)"
    by (simp_all add: completeCandidate_def idA_def idB_def)
  have A1: "map_get (usageStats gw1) idA
              = Some (sA\<lparr>requests := requests sA + 1, errors := errors sA + 1\<rparr>)"
    using completeWithProvider_registered(2) [OF regA stA failA] by simp
  have B1: "map_get (usageStats gw1) idB = Some sB"
    using completeWithProvider_registered(3) [OF regA stA failA, of idB] ne stB by simp
  from completeWithProvider_success_registered [OF okB]
  obtain pB where regB: "map_get (registry gw1) idB = Some pB" by auto
  have "map_get (usageStats gw2) idA = map_get (usageStats gw1) idA"
    using completeWithProvider_registered(3) [OF regB B1 okB, of idA] ne by simp
  then show ?case using A1 by simp
next
  case 4
  then have ne: "idA \<noteq> idB" and regA: "map_get (registry gw) idA = Some pA"
    and stA: "map_get (usageStats gw) idA = Some sA"
    and stB: "map_get (usageStats gw) idB = Some sB"
    and failA: "completeWithProvider env gw idA (Some (name A)) messages
                  (Some (obj_spread (opt_obj ps) (opt_obj (params A)))) w = (Inl e, gw1, w1)"
    and okB: "completeWithProvider env gw1 idB (Some (name B)) messages
                  (Some (obj_spread (opt_obj ps) (opt_obj (params B)))) w1 = (Inr r, gw2, w2)"
    by (simp_all add: completeCandidate_def idA_def idB_def)
  have B1: "map_get (usageStats gw1) idB = Some sB"
    using completeWithProvider_registered(3) [OF regA stA failA, of idB] ne stB by simp
  from completeWithProvider_success_registered [OF okB]
  obtain pB where regB: "map_get (registry gw1) idB = Some pB" by auto
  show ?case
    using completeWithProvider_registered(2) [OF regB B1 okB]
    by (simp split: option.splits)
qed

lemma demo_ids:
  "extractProviderId (provider candidate_A) = ''openai''"
  "extractProviderId (provider candidate_B) = ''anthropic''"
  by code_simp+

lemma demo_lookups:
  "map_get (registry demo_gateway) ''openai'' = Some (OpenAIProvider ''sk-a'' None None)"
  "map_get (usageStats demo_gateway) ''openai'' = Some \<lparr>requests = 0, used_tokens = 0, errors = 0\<rparr>"
  "map_get (usageStats demo_gateway) ''anthropic'' = Some \<lparr>requests = 0, used_tokens = 0, errors = 0\<rparr>"
  by code_simp+

lemma demo_A_fails:
  "completeCandidate demo_env demo_gateway candidate_A [] None 0
     = (Inl (Error [Str ''OpenAI API error: 500'']), gateway_after_A, 0)"
  by code_simp

lemma demo_B_succeeds:
  "completeCandidate demo_env gateway_after_A candidate_B [] None 0
     = (Inr demo_response, gateway_after_B, 0)"
  by code_simp

text \<open>
  The scenario on a gateway of two providers where every OpenAI call fails and every
  Anthropic call succeeds.
\<close>

theorem failover_in_order_witness:
  "failoverStrategy demo_env demo_gateway [candidate_A, candidate_B] [] None 0
     = (Inr demo_response, gateway_after_B, 0)
   \<and> map_option errors (map_get (usageStats gateway_after_B) ''openai'') = Some 1
   \<and> map_option requests (map_get (usageStats gateway_after_B) ''anthropic'') = Some 1"
proof -
  have scenario:
    "extractProviderId (provider candidate_A) \<noteq> extractProviderId (provider candidate_B)
     \<and> map_get (registry demo_gateway) (extractProviderId (provider candidate_A))
         = Some (OpenAIProvider ''sk-a'' None None)
     \<and> map_get (usageStats demo_gateway) (extractProviderId (provider candidate_A))
         = Some \<lparr>requests = 0, used_tokens = 0, errors = 0\<rparr>
     \<and> map_get (usageStats demo_gateway) (extractProviderId (provider candidate_B))
         = Some \<lparr>requests = 0, used_tokens = 0, errors = 0\<rparr>
     \<and> completeCandidate demo_env demo_gateway candidate_A [] None 0
         = (Inl (Error [Str ''OpenAI API error: 500'']), gateway_after_A, 0)
     \<and> completeCandidate demo_env gateway_after_A candidate_B [] None 0
         = (Inr demo_response, gateway_after_B, 0)"
    by (simp add: demo_ids demo_lookups demo_A_fails demo_B_succeeds)
  from failover_in_order [where A = candidate_A and B = candidate_B and pc = candidate_A
         and rest = "[candidate_B]", THEN conjunct2, rule_format, OF scenario]
  show ?thesis by (simp add: demo_ids)
qed

text \<open>
  C5. Over a non-empty candidate list of length \<open>n\<close>, \<open>roundRobinStrategy\<close> is exactly
  the call for the one candidate at index (sum of the request counters of all usage
  records) mod \<open>n\<close>: its result, error or not, is the strategy's result, and no other
  candidate is called. With 2 candidates and 3 requests so far the candidate at index
  3 mod 2 is called; when that provider is registered its request counter goes up, the
  total is 4, and the next request goes to the candidate at index 0.
\<close>

theorem round_robin_by_total_requests:
  fixes env :: "'w Env" and providers :: "ModelProviderConfig list"
  defines "second \<equiv> extractProviderId (provider (providers ! 1))"
  shows "(providers \<noteq> [] \<longrightarrow>
            roundRobinStrategy env gw providers messages ps w
              = completeCandidate env gw (providers ! (totalRequests gw mod length providers))
                  messages ps w)
       \<and> (length providers = 2 \<and> totalRequests gw = 3 \<longrightarrow>
            roundRobinStrategy env gw providers messages ps w
              = completeCandidate env gw (providers ! (3 mod 2)) messages ps w)
       \<and> (length providers = 2 \<and> totalRequests gw = 3
            \<and> map_get (registry gw) second = Some p \<and> map_get (usageStats gw) second = Some s
            \<and> roundRobinStrategy env gw providers messages ps w = (out, gw', w')
          \<longrightarrow> totalRequests gw' = 4
             \<and> roundRobinStrategy env gw' providers messages' ps' w''
                 = completeCandidate env gw' (providers ! 0) messages' ps' w'')"
proof (intro conjI impI, goal_cases)
  case 1
  then show ?case by (simp add: roundRobinStrategy_def Let_def)
next
  case 2
  then have "providers \<noteq> []" by auto
  then show ?case using 2 by (simp add: roundRobinStrategy_def Let_def)
next
  case 3
  then have len: "length providers = 2" and tot: "totalRequests gw = 3"
    and reg: "map_get (registry gw) second = Some p" and st: "map_get (usageStats gw) second = Some s"
    and run: "roundRobinStrategy env gw providers messages ps w = (out, gw', w')"
    by simp_all
  have ne: "providers \<noteq> []" using len by auto
  have "completeWithProvider env gw second (Some (name (providers ! 1))) messages
          (Some (obj_spread (opt_obj ps) (opt_obj (params (providers ! 1))))) w = (out, gw', w')"
    using run ne len tot by (simp add: roundRobinStrategy_def Let_def completeCandidate_def second_def)
  from completeWithProvider_registered(4) [OF reg st this] tot
  show ?case by simp
next
  case 4
  then have len: "length providers = 2" and tot: "totalRequests gw = 3"
    and reg: "map_get (registry gw) second = Some p" and st: "map_get (usageStats gw) second = Some s"
    and run: "roundRobinStrategy env gw providers messages ps w = (out, gw', w')"
    by simp_all
  have ne: "providers \<noteq> []" using len by auto
  have "completeWithProvider env gw second (Some (name (providers ! 1))) messages
          (Some (obj_spread (opt_obj ps) (opt_obj (params (providers ! 1))))) w = (out, gw', w')"
    using run ne len tot by (simp add: roundRobinStrategy_def Let_def completeCandidate_def second_def)
  from completeWithProvider_registered(4) [OF reg st this] tot
  have "totalRequests gw' = 4" by simp
  then show ?case using len ne by (simp add: roundRobinStrategy_def Let_def)
qed

lemma demo_round_robin:
  "totalRequests gateway_3_requests = 3"
  "map_get (registry gateway_3_requests) ''anthropic'' = Some (AnthropicProvider ''sk-b'' None None)"
  "map_get (usageStats gateway_3_requests) ''anthropic''
     = Some \<lparr>requests = 1, used_tokens = 7, errors = 0\<rparr>"
  "roundRobinStrategy demo_env gateway_3_requests [candidate_A, candidate_B] [] None 0
     = (Inr demo_response, gateway_4_requests, 0)"
  "completeCandidate demo_env gateway_4_requests candidate_A [] None 0
     = (Inl (Error [Str ''OpenAI API error: 500'']),
        demo_gateway\<lparr>usageStats :=
          [(''openai'', \<lparr>requests = 3, used_tokens = 0, errors = 3\<rparr>),
           (''anthropic'', \<lparr>requests = 2, used_tokens = 14, errors = 0\<rparr>)]\<rparr>, 0)"
  by code_simp+

text \<open>
  The scenario on the gateway of two providers with request counters 2 and 1.
\<close>

theorem round_robin_by_total_requests_witness:
  "roundRobinStrategy demo_env gateway_3_requests [candidate_A, candidate_B] [] None 0
     = (Inr demo_response, gateway_4_requests, 0)
   \<and> totalRequests gateway_4_requests = 4
   \<and> roundRobinStrategy demo_env gateway_4_requests [candidate_A, candidate_B] [] None 0
     = (Inl (Error [Str ''OpenAI API error: 500'']),
        demo_gateway\<lparr>usageStats :=
          [(''openai'', \<lparr>requests = 3, used_tokens = 0, errors = 3\<rparr>),
           (''anthropic'', \<lparr>requests = 2, used_tokens = 14, errors = 0\<rparr>)]\<rparr>, 0)"
proof -
  have scenario:
    "length [candidate_A, candidate_B] = 2 \<and> totalRequests gateway_3_requests = 3
     \<and> map_get (registry gateway_3_requests)
           (extractProviderId (provider ([candidate_A, candidate_B] ! 1)))
         = Some (AnthropicProvider ''sk-b'' None None)
     \<and> map_get (usageStats gateway_3_requests)
           (extractProviderId (provider ([candidate_A, candidate_B] ! 1)))
         = Some \<lparr>requests = 1, used_tokens = 7, errors = 0\<rparr>
     \<and> roundRobinStrategy demo_env gateway_3_requests [candidate_A, candidate_B] [] None 0
         = (Inr demo_response, gateway_4_requests, 0)"
    by (simp add: demo_ids demo_round_robin)
  from round_robin_by_total_requests [where providers = "[candidate_A, candidate_B]"
         and messages' = "[]" and ps' = None and w'' = 0,
         THEN conjunct2, THEN conjunct2, rule_format, OF scenario]
  show ?thesis by (simp add: demo_round_robin)
qed

lemma resolve_block_first:
  assumes "list_all incomplete_entry pre" "entry_type credRef = Some ty" "entry_ref credRef = Some ref"
  shows "resolve_block resolver (pre @ (key, credRef) # rest) = resolve_reference resolver ty ref"
  using assms
  by (induction pre) (auto simp: incomplete_entry_def split: option.splits)

lemma resolve_block_none:
  "list_all incomplete_entry entries \<Longrightarrow> resolve_block resolver entries = None"
  by (induction entries) (auto simp: incomplete_entry_def split: option.splits)

lemma createProvider_key:
  assumes "createProvider resolver config = Inr p"
  shows "resolve_apiKey resolver (cfg_credentials config) = Some (apiKey_of p) \<and> apiKey_of p \<noteq> []"
proof (cases "resolve_apiKey resolver (cfg_credentials config)")
  case None
  then show ?thesis using assms by (simp add: createProvider_def)
next
  case (Some k)
  show ?thesis
  proof (cases "k = []")
    case True
    then show ?thesis using assms Some by (simp add: createProvider_def)
  next
    case False
    then have "apiKey_of p = k"
      using assms Some
      by (simp add: createProvider_def Let_def split: if_splits) auto
    then show ?thesis using Some False by simp
  qed
qed

lemma createProvider_no_key:
  assumes "resolve_apiKey resolver (cfg_credentials config) = None
           \<or> resolve_apiKey resolver (cfg_credentials config) = Some []"
  shows "createProvider resolver config
           = Inl (Error [Str ''No credentials found for provider '', Str (cfg_id config)])"
  using assms by (auto simp: createProvider_def)

text \<open>
  C8 (as amended). For every provider whose credentials are a map of references: a map
  that has an entry named \<open>type\<close> is read as one reference and gives no credential.
  In any other map the first entry that has both a \<open>type\<close> and a \<open>ref\<close> decides: its
  resolution is the credential, whatever entries follow it; entries that lack \<open>type\<close> or
  \<open>ref\<close> are passed over, and a map without a complete entry gives no credential. A
  provider that is created carries exactly that credential. When there is no credential,
  or it is the empty string, creation fails with \<open>No credentials found\<close> and
  initialization leaves the gateway without this provider; no later entry is consulted.
\<close>

theorem credential_block_first_reference_decides:
  fixes entries :: "(string \<times> CredentialEntry) list" and config :: IRProvider
    and resolver :: CredentialResolver
  defines "config' \<equiv> config\<lparr>cfg_credentials := Some (CredentialBlock entries)\<rparr>"
  defines "apiKey \<equiv> resolve_apiKey resolver (cfg_credentials config')"
  shows "(''type'' \<in> set (map fst entries) \<longrightarrow> apiKey = None)
       \<and> (''type'' \<notin> set (map fst entries) \<and> entries = pre @ (key, credRef) # rest
            \<and> list_all incomplete_entry pre
            \<and> entry_type credRef = Some ty \<and> entry_ref credRef = Some ref
          \<longrightarrow> apiKey = resolve_reference resolver ty ref)
       \<and> (''type'' \<notin> set (map fst entries) \<and> list_all incomplete_entry entries
          \<longrightarrow> apiKey = None)
       \<and> (\<forall>p. createProvider resolver config' = Inr p
              \<longrightarrow> apiKey = Some (apiKey_of p) \<and> apiKey_of p \<noteq> [])
       \<and> (apiKey = None \<or> apiKey = Some []
          \<longrightarrow> createProvider resolver config'
                = Inl (Error [Str ''No credentials found for provider '', Str (cfg_id config)])
              \<and> initializeProviders env resolver w [config'] gw = gw)"
proof (intro conjI allI impI, goal_cases)
  case 1
  then show ?case by (simp add: apiKey_def config'_def resolve_apiKey_def)
next
  case 2
  then have shape: "entries = pre @ (key, credRef) # rest"
    and named_type: "''type'' \<notin> set (map fst entries)"
    and skipped: "list_all incomplete_entry pre"
    and ty: "entry_type credRef = Some ty" and ref: "entry_ref credRef = Some ref"
    by blast+
  show ?case
    using named_type resolve_block_first [OF skipped ty ref, of resolver key rest]
    by (simp add: apiKey_def config'_def resolve_apiKey_def shape)
next
  case 3
  then have named_type: "''type'' \<notin> set (map fst entries)"
    and skipped: "list_all incomplete_entry entries"
    by blast+
  show ?case
    using named_type resolve_block_none [OF skipped, of resolver]
    by (simp add: apiKey_def config'_def resolve_apiKey_def)
next
  case (4 p)
  from createProvider_key [OF this] show ?case by (simp add: apiKey_def)
next
  case (5 p)
  from createProvider_key [OF this] show ?case by simp
next
  case 6
  then have "resolve_apiKey resolver (cfg_credentials config') = None
             \<or> resolve_apiKey resolver (cfg_credentials config') = Some []"
    by (simp add: apiKey_def)
  from createProvider_no_key [OF this] show ?case by (simp add: config'_def)
next
  case 7
  then have "resolve_apiKey resolver (cfg_credentials config') = None
             \<or> resolve_apiKey resolver (cfg_credentials config') = Some []"
    by (simp add: apiKey_def)
  from createProvider_no_key [OF this] show ?case by simp
qed

text \<open>
  C8 as stated fails: the first entry of the map does not resolve, the second one would
  resolve to \<open>sk-live\<close>, and yet the provider is not created and not registered.
\<close>

theorem later_credential_not_used_counterexample:
  "resolve_reference fallback_resolver ''env'' ''PRIMARY_KEY'' = None
   \<and> resolve_reference fallback_resolver ''env'' ''BACKUP_KEY'' = Some ''sk-live''
   \<and> createProvider fallback_resolver two_key_provider
       = Inl (Error [Str ''No credentials found for provider '', Str ''openai''])
   \<and> registry (new_ModelGateway clock_env fallback_resolver 0 [two_key_provider]) = []"
  by code_simp

text \<open>
  The four cases on one provider: its two-entry map, whose first entry decides and does
  not resolve; a map whose first entry lacks its \<open>ref\<close>, so that the second entry decides
  and the provider is created with its value; a map whose only entry is named \<open>type\<close>;
  and a map without a complete entry.
\<close>

theorem credential_block_first_reference_decides_witness:
  "createProvider fallback_resolver two_key_provider
     = Inl (Error [Str ''No credentials found for provider '', Str ''openai''])
   \<and> initializeProviders clock_env fallback_resolver 0 [two_key_provider] demo_gateway = demo_gateway
   \<and> createProvider fallback_resolver
        (two_key_provider\<lparr>cfg_credentials := Some (CredentialBlock skipped_then_backup)\<rparr>)
       = Inr (OpenAIProvider ''sk-live'' None None)
   \<and> createProvider fallback_resolver
        (two_key_provider\<lparr>cfg_credentials := Some (CredentialBlock entry_named_type)\<rparr>)
       = Inl (Error [Str ''No credentials found for provider '', Str ''openai''])
   \<and> createProvider fallback_resolver
        (two_key_provider\<lparr>cfg_credentials := Some (CredentialBlock [(''note'', no_ref_entry)])\<rparr>)
       = Inl (Error [Str ''No credentials found for provider '', Str ''openai''])"
proof -
  let ?first = "\<lparr>entry_type = Some ''env'', entry_ref = Some ''PRIMARY_KEY''\<rparr>"
  let ?second = "\<lparr>entry_type = Some ''env'', entry_ref = Some ''BACKUP_KEY''\<rparr>"
  have same: "two_key_provider\<lparr>cfg_credentials :=
                 Some (CredentialBlock [(''api_key'', ?first), (''backup'', ?second)])\<rparr>
      = two_key_provider"
    by (simp add: two_key_provider_def)
  have resolved:
    "resolve_reference fallback_resolver ''env'' ''PRIMARY_KEY'' = None"
    "resolve_reference fallback_resolver ''env'' ''BACKUP_KEY'' = Some ''sk-live''"
    by code_simp+
  have created:
    "createProvider fallback_resolver
        (two_key_provider\<lparr>cfg_credentials := Some (CredentialBlock skipped_then_backup)\<rparr>)
       = Inr (OpenAIProvider ''sk-live'' None None)"
    by code_simp
  note t = credential_block_first_reference_decides
             [where resolver = fallback_resolver and config = two_key_provider
                and env = clock_env and w = 0 and gw = demo_gateway]
  have a: "createProvider fallback_resolver two_key_provider
             = Inl (Error [Str ''No credentials found for provider '', Str ''openai''])
           \<and> initializeProviders clock_env fallback_resolver 0 [two_key_provider] demo_gateway
             = demo_gateway"
    using t [where entries = "[(''api_key'', ?first), (''backup'', ?second)]" and pre = "[]"
               and key = "''api_key''" and credRef = ?first and rest = "[(''backup'', ?second)]"
               and ty = "''env''" and ref = "''PRIMARY_KEY''"]
      resolved
    by (simp add: same) (simp add: two_key_provider_def)
  have b: "resolve_apiKey fallback_resolver (Some (CredentialBlock skipped_then_backup))
             = Some ''sk-live''"
    using t [where entries = skipped_then_backup and pre = "[(''note'', no_ref_entry)]"
               and key = "''backup''" and credRef = ?second and rest = "[]"
               and ty = "''env''" and ref = "''BACKUP_KEY''"]
      resolved
    by (simp add: skipped_then_backup_def no_ref_entry_def incomplete_entry_def)
  have c: "createProvider fallback_resolver
        (two_key_provider\<lparr>cfg_credentials := Some (CredentialBlock entry_named_type)\<rparr>)
       = Inl (Error [Str ''No credentials found for provider '', Str ''openai''])"
    using t [where entries = entry_named_type]
    by (simp add: entry_named_type_def) (simp add: two_key_provider_def)
  have d: "createProvider fallback_resolver
        (two_key_provider\<lparr>cfg_credentials := Some (CredentialBlock [(''note'', no_ref_entry)])\<rparr>)
       = Inl (Error [Str ''No credentials found for provider '', Str ''openai''])"
    using t [where entries = "[(''note'', no_ref_entry)]"]
    by (simp add: no_ref_entry_def incomplete_entry_def) (simp add: two_key_provider_def)
  show ?thesis using a b c d created by simp
qed

section \<open>Properties of the expression evaluator\<close>

subsection \<open>Own properties of objects\<close>


















subsection \<open>Evaluations in sequence\<close>





subsection \<open>Property reads\<close>


lemma get_prop_undefined [simp]:
  "get_prop env VUndefined seg = Inr VUndefined" "get_prop env VNull seg = Inr VUndefined"
  by (simp_all add: get_prop_def)






subsection \<open>The evaluator by kind of expression\<close>







section \<open>Properties of the workflow engine\<close>

lemma run_steps_append:
  "run_steps env rt irv (pre @ post) scope w =
     (case run_steps env rt irv pre scope w of
        (Inl err, rt', w') \<Rightarrow> (Inl err, rt', w')
      | (Inr scope', rt', w') \<Rightarrow> run_steps env rt' irv post scope' w')"
proof (induction pre arbitrary: rt scope w)
  case Nil
  then show ?case by simp
next
  case (Cons step pre)
  obtain stepName e where step: "step = (stepName, e)" by (cases step)
  show ?case
    by (simp add: step Cons.IH split: expr.splits sum.splits prod.splits)
qed

text \<open>
  C3. When the steps before a step have run without error and that step is a tool, an
  agent or a capability step whose executor (\<open>executeTool\<close>, \<open>executeAgent\<close> or
  \<open>executeCapability\<close>, according to the type of the step), run in the scope and state
  those steps left, throws an error, then \<open>execute\<close> throws that same error, with the
  runtime and the world as the failing executor left them: the result is the same
  whatever steps follow, none of them is executed, and no scope is returned.
\<close>

theorem failed_step_aborts_workflow:
  assumes loaded: "ir rt = Some irv"
      and steps: "List.find (\<lambda>c. block_type c = ''steps'') (block_children workflowBlock)
                    = Some stepsBlock"
      and order: "block_attributes stepsBlock
                    = pre @ (stepName, BlockExpression ty ident body) # post"
      and before: "run_steps env rt irv pre (VObj [(''input'', input)]) w = (Inr scope', rt', w')"
      and fails: "(ty = ''tool'' \<and> executeTool env rt' irv ident body scope' w' = (Inl err, rt'', w''))
                \<or> (ty = ''agent'' \<and> executeAgent env rt' ident body scope' w' = (Inl err, rt'', w''))
                \<or> (ty = ''capability''
                    \<and> executeCapability env rt' ident body scope' w' = (Inl err, rt'', w''))"
  shows "execute env rt workflowBlock input w = (Inl err, rt'', w'')
       \<and> run_steps env rt irv (pre @ (stepName, BlockExpression ty ident body) # post)
             (VObj [(''input'', input)]) w
           = run_steps env rt irv (pre @ [(stepName, BlockExpression ty ident body)])
               (VObj [(''input'', input)]) w
       \<and> (\<forall>scope. fst (execute env rt workflowBlock input w) \<noteq> Inr scope)"
proof -
  have step: "run_steps env rt' irv ((stepName, BlockExpression ty ident body) # rest) scope' w'
                = (Inl err, rt'', w'')" for rest
    using fails by auto
  have cut: "run_steps env rt irv (pre @ (stepName, BlockExpression ty ident body) # rest)
               (VObj [(''input'', input)]) w = (Inl err, rt'', w'')" for rest
    by (simp only: run_steps_append before step prod.case sum.case)
  have "execute env rt workflowBlock input w = (Inl err, rt'', w'')"
    by (simp add: execute_def loaded steps order cut)
  then show ?thesis
    using cut [of post] cut [of "[]"] by simp
qed

lemma greet_facts:
  "ir greet_runtime = Some greet_ir"
  "List.find (\<lambda>c. block_type c = ''steps'') (block_children greet)
     = Some (Block ''steps'' [] [] greet_steps)"
  "block_attributes (Block ''steps'' [] [] greet_steps)
     = [(''s0'', BlockExpression ''capability'' (Some ''greeting'') [])]
       @ (''s1'', BlockExpression ''tool'' (Some ''echo'') [(''text'', Reference [''input'', ''text''])])
       # [(''s2'', BlockExpression ''capability'' (Some ''farewell'') [])]"
  "run_steps clock_env greet_runtime greet_ir
       [(''s0'', BlockExpression ''capability'' (Some ''greeting'') [])]
       (VObj [(''input'', greet_input)]) 0
     = (Inr scope_after_s0, greet_runtime, 0)"
  "(''tool'' = ''tool''
      \<and> executeTool clock_env greet_runtime greet_ir (Some ''echo'')
           [(''text'', Reference [''input'', ''text''])] scope_after_s0 0
         = (Inl greet_failure, greet_runtime_failed, 0))
   \<or> (''tool'' = ''agent''
      \<and> executeAgent clock_env greet_runtime (Some ''echo'')
           [(''text'', Reference [''input'', ''text''])] scope_after_s0 0
         = (Inl greet_failure, greet_runtime_failed, 0))
   \<or> (''tool'' = ''capability''
      \<and> executeCapability clock_env greet_runtime (Some ''echo'')
           [(''text'', Reference [''input'', ''text''])] scope_after_s0 0
         = (Inl greet_failure, greet_runtime_failed, 0))"
  by code_simp+

lemma summon_facts:
  "ir greet_runtime = Some greet_ir"
  "List.find (\<lambda>c. block_type c = ''steps'') (block_children summon)
     = Some (Block ''steps'' [] [] summon_steps)"
  "block_attributes (Block ''steps'' [] [] summon_steps)
     = [(''s0'', BlockExpression ''capability'' (Some ''greeting'') [])]
       @ (''s1'', BlockExpression ''agent'' (Some ''ghost'') [(''message'', Reference [''input'', ''text''])])
       # [(''s2'', BlockExpression ''capability'' (Some ''farewell'') [])]"
  "run_steps clock_env greet_runtime greet_ir
       [(''s0'', BlockExpression ''capability'' (Some ''greeting'') [])]
       (VObj [(''input'', greet_input)]) 0
     = (Inr scope_after_s0, greet_runtime, 0)"
  "(''agent'' = ''tool''
      \<and> executeTool clock_env greet_runtime greet_ir (Some ''ghost'')
           [(''message'', Reference [''input'', ''text''])] scope_after_s0 0
         = (Inl summon_failure, greet_runtime, 0))
   \<or> (''agent'' = ''agent''
      \<and> executeAgent clock_env greet_runtime (Some ''ghost'')
           [(''message'', Reference [''input'', ''text''])] scope_after_s0 0
         = (Inl summon_failure, greet_runtime, 0))
   \<or> (''agent'' = ''capability''
      \<and> executeCapability clock_env greet_runtime (Some ''ghost'')
           [(''message'', Reference [''input'', ''text''])] scope_after_s0 0
         = (Inl summon_failure, greet_runtime, 0))"
  by code_simp+

lemma recall_facts:
  "ir greet_runtime = Some greet_ir"
  "List.find (\<lambda>c. block_type c = ''steps'') (block_children recall)
     = Some (Block ''steps'' [] [] recall_steps)"
  "block_attributes (Block ''steps'' [] [] recall_steps)
     = [(''s0'', BlockExpression ''capability'' (Some ''greeting'') [])]
       @ (''s1'', BlockExpression ''capability'' (Some ''memory'')
                    [(''key'', Reference [''input'', ''constructor'', ''caller''])])
       # [(''s2'', BlockExpression ''capability'' (Some ''farewell'') [])]"
  "run_steps clock_env greet_runtime greet_ir
       [(''s0'', BlockExpression ''capability'' (Some ''greeting'') [])]
       (VObj [(''input'', greet_input)]) 0
     = (Inr scope_after_s0, greet_runtime, 0)"
  "(''capability'' = ''tool''
      \<and> executeTool clock_env greet_runtime greet_ir (Some ''memory'')
           [(''key'', Reference [''input'', ''constructor'', ''caller''])] scope_after_s0 0
         = (Inl restricted_property, greet_runtime, 0))
   \<or> (''capability'' = ''agent''
      \<and> executeAgent clock_env greet_runtime (Some ''memory'')
           [(''key'', Reference [''input'', ''constructor'', ''caller''])] scope_after_s0 0
         = (Inl restricted_property, greet_runtime, 0))
   \<or> (''capability'' = ''capability''
      \<and> executeCapability clock_env greet_runtime (Some ''memory'')
           [(''key'', Reference [''input'', ''constructor'', ''caller''])] scope_after_s0 0
         = (Inl restricted_property, greet_runtime, 0))"
  by code_simp+

text \<open>
  The workflows \<open>greet\<close>, \<open>summon\<close> and \<open>recall\<close> on the input \<open>{text: 'hi'}\<close>: after a first
  capability step the tool \<open>echo\<close> cannot reach its handler, the agent \<open>ghost\<close> is not
  found, and the input of the capability \<open>memory\<close> throws. Each time \<open>execute\<close> throws the
  error of the second step and the third step changes nothing.
\<close>

theorem failed_step_aborts_workflow_witness:
  "execute clock_env greet_runtime greet greet_input 0 = (Inl greet_failure, greet_runtime_failed, 0)
   \<and> run_steps clock_env greet_runtime greet_ir greet_steps (VObj [(''input'', greet_input)]) 0
       = run_steps clock_env greet_runtime greet_ir (butlast greet_steps)
           (VObj [(''input'', greet_input)]) 0
   \<and> (\<forall>scope. fst (execute clock_env greet_runtime greet greet_input 0) \<noteq> Inr scope)
   \<and> execute clock_env greet_runtime summon greet_input 0 = (Inl summon_failure, greet_runtime, 0)
   \<and> run_steps clock_env greet_runtime greet_ir summon_steps (VObj [(''input'', greet_input)]) 0
       = run_steps clock_env greet_runtime greet_ir (butlast summon_steps)
           (VObj [(''input'', greet_input)]) 0
   \<and> (\<forall>scope. fst (execute clock_env greet_runtime summon greet_input 0) \<noteq> Inr scope)
   \<and> execute clock_env greet_runtime recall greet_input 0
       = (Inl restricted_property, greet_runtime, 0)
   \<and> run_steps clock_env greet_runtime greet_ir recall_steps (VObj [(''input'', greet_input)]) 0
       = run_steps clock_env greet_runtime greet_ir (butlast recall_steps)
           (VObj [(''input'', greet_input)]) 0
   \<and> (\<forall>scope. fst (execute clock_env greet_runtime recall greet_input 0) \<noteq> Inr scope)"
  using failed_step_aborts_workflow [OF greet_facts]
        failed_step_aborts_workflow [OF summon_facts]
        failed_step_aborts_workflow [OF recall_facts]
  by (simp add: greet_steps_def summon_steps_def recall_steps_def)

end
